theory Spec2Isabelle
  imports Main
begin

section \<open>Values of the host language\<close>

text \<open>
  The server is TypeScript. Its strings are modelled as \<^typ>\<open>string\<close>, a text standing for
  its UTF-8 bytes. The handlers never calculate with a number taken from a request or from
  a store reply: they test it for truthiness, hand it on, or print it. A number is
  therefore kept as \<open>Whole n\<close> when it is an integer that the language prints as its
  decimal expansion, and as \<open>Other t\<close> otherwise (a fraction, or a magnitude printed with
  an exponent), \<open>t\<close> being the text the language prints for it. Such a number is never
  zero.
\<close>

datatype jsnumber = Whole int | Other string

definition digit_char :: "nat \<Rightarrow> char" where
  "digit_char d = ''0123456789'' ! d"

fun dec :: "nat \<Rightarrow> string" where
  "dec n = (if n < 10 then [digit_char n] else dec (n div 10) @ [digit_char (n mod 10)])"

declare dec.simps [simp del]

definition int_text :: "int \<Rightarrow> string" where
  "int_text i = (if i < 0 then ''-'' @ dec (nat (- i)) else dec (nat i))"

text \<open>The template rendering \<open>`${n}`\<close> of a number, and its truthiness in \<open>if (n)\<close>.\<close>

fun number_text :: "jsnumber \<Rightarrow> string" where
  "number_text (Whole i) = int_text i"
| "number_text (Other t) = t"

fun truthy_number :: "jsnumber \<Rightarrow> bool" where
  "truthy_number (Whole i) = (i \<noteq> 0)"
| "truthy_number (Other t) = True"

text \<open>\<open>Array.prototype.join\<close> on an array of strings.\<close>

fun join :: "string \<Rightarrow> string list \<Rightarrow> string" where
  "join sep [] = []"
| "join sep [x] = x"
| "join sep (x # y # ys) = x @ sep @ join sep (y # ys)"

text \<open>
  The arguments of a tool call arrive as parsed JSON. An object is an association list
  read with \<^const>\<open>map_of\<close>.
\<close>

datatype json =
    JNull
  | JBool bool
  | JNum jsnumber
  | JStr string
  | JArr "json list"
  | JObj "(string \<times> json) list"

type_synonym jsobject = "(string \<times> json) list"

section \<open>Errors\<close>

text \<open>
  A validation issue carries the path of the offending value and a message. \<open>Error m\<close> is
  the language's plain \<open>new Error(m)\<close>; \<open>ZodError\<close> is what a schema's \<open>parse\<close> throws;
  \<open>StoreError\<close> is a rejected client call (an error reply of the store, or a closed
  connection); \<open>TypeError\<close> is the runtime's own.
\<close>

record issue =
  path :: "string list"
  message :: string

datatype error =
    Error string
  | ZodError "issue list"
  | StoreError string
  | TypeError

section \<open>Reconnection\<close>

definition MAX_RETRIES :: nat where
  "MAX_RETRIES = 5"

definition MIN_RETRY_DELAY :: nat where
  "MIN_RETRY_DELAY = 1000"

definition MAX_RETRY_DELAY :: nat where
  "MAX_RETRY_DELAY = 30000"

text \<open>
  \<open>reconnectStrategy\<close> is given the number of retries made so far and answers with an
  error, which tells the client to give up, or with the delay in milliseconds before the
  next attempt. The two lines it writes to the console are left out.
\<close>

definition reconnectStrategy :: "nat \<Rightarrow> error + nat" where
  "reconnectStrategy retries =
     (if retries \<ge> MAX_RETRIES then Inl (Error ''Max retries reached'')
      else Inr (min (2 ^ retries * MIN_RETRY_DELAY) MAX_RETRY_DELAY))"

text \<open>
  The client library drives the strategy: while connecting keeps failing it asks for
  retries \<open>0, 1, 2, \<dots>\<close> and schedules one attempt after each delay, until the strategy
  answers with an error. \<open>reconnectDelays n\<close> lists the delays scheduled from retry \<open>n\<close> on
  when no attempt succeeds.
\<close>

function reconnectDelays :: "nat \<Rightarrow> nat list" where
  "reconnectDelays retries =
     (case reconnectStrategy retries of
        Inl _ \<Rightarrow> []
      | Inr delay \<Rightarrow> delay # reconnectDelays (Suc retries))"
  by pat_completeness auto
termination
  by (relation "measure (\<lambda>retries. MAX_RETRIES - retries)")
     (auto simp: reconnectStrategy_def split: if_splits)

declare reconnectDelays.simps [simp del]

section \<open>Shutdown\<close>







section \<open>Validation of tool arguments\<close>

text \<open>
  The argument schemas are values of the validation library. A schema value is
  \<open>z.string()\<close>, \<open>z.number()\<close>, \<open>z.boolean()\<close>, \<open>z.array(t)\<close>, \<open>a.or(b)\<close>,
  \<open>t.optional()\<close> or \<open>t.default(d)\<close>; \<open>z.object({...})\<close> is the list of its fields.
  The library is not part of the repository: \<open>zparse\<close> follows its documented behaviour
  (default messages of its version 3). The value parsed is \<open>None\<close> for \<open>undefined\<close>.
\<close>

datatype ztype =
    ZString
  | ZNumber
  | ZBoolean
  | ZArray ztype
  | ZOr ztype ztype
  | ZOptional ztype
  | ZDefault ztype json

type_synonym zobject = "(string \<times> ztype) list"

fun getParsedType :: "json option \<Rightarrow> string" where
  "getParsedType None = ''undefined''"
| "getParsedType (Some JNull) = ''null''"
| "getParsedType (Some (JBool b)) = ''boolean''"
| "getParsedType (Some (JNum n)) = ''number''"
| "getParsedType (Some (JStr s)) = ''string''"
| "getParsedType (Some (JArr xs)) = ''array''"
| "getParsedType (Some (JObj kvs)) = ''object''"

definition invalid_type :: "string list \<Rightarrow> string \<Rightarrow> json option \<Rightarrow> issue list" where
  "invalid_type p expected v =
     [\<lparr>path = p,
       message = (if v = None then ''Required''
                  else ''Expected '' @ expected @ '', received '' @ getParsedType v)\<rparr>]"

fun issues_of :: "issue list + 'a \<Rightarrow> issue list" where
  "issues_of (Inl iss) = iss"
| "issues_of (Inr v) = []"

fun passed :: "issue list + 'a \<Rightarrow> bool" where
  "passed (Inl iss) = False"
| "passed (Inr v) = True"

text \<open>
  An array reports the issues of all its elements, each under its index. A union reports
  the single issue \<open>Invalid input\<close> at its own path when no alternative accepts the value.
\<close>

fun zparse :: "ztype \<Rightarrow> string list \<Rightarrow> json option \<Rightarrow> issue list + json option" where
  "zparse ZString p v =
     (case v of Some (JStr s) \<Rightarrow> Inr v | _ \<Rightarrow> Inl (invalid_type p ''string'' v))"
| "zparse ZNumber p v =
     (case v of Some (JNum n) \<Rightarrow> Inr v | _ \<Rightarrow> Inl (invalid_type p ''number'' v))"
| "zparse ZBoolean p v =
     (case v of Some (JBool b) \<Rightarrow> Inr v | _ \<Rightarrow> Inl (invalid_type p ''boolean'' v))"
| "zparse (ZArray t) p v =
     (case v of
        Some (JArr xs) \<Rightarrow>
          (let rs = map (\<lambda>ix. zparse t (p @ [dec (fst ix)]) (Some (snd ix))) (enumerate 0 xs)
           in if list_all passed rs then Inr v else Inl (concat (map issues_of rs)))
      | _ \<Rightarrow> Inl (invalid_type p ''array'' v))"
| "zparse (ZOr a b) p v =
     (case zparse a p v of
        Inr r \<Rightarrow> Inr r
      | Inl _ \<Rightarrow>
          (case zparse b p v of
             Inr r \<Rightarrow> Inr r
           | Inl _ \<Rightarrow> Inl [\<lparr>path = p, message = ''Invalid input''\<rparr>]))"
| "zparse (ZOptional t) p v = (if v = None then Inr None else zparse t p v)"
| "zparse (ZDefault t d) p v = zparse t p (if v = None then Some d else v)"

text \<open>
  \<open>parse\<close> is \<open>schema.parse(args)\<close> for an object schema. The arguments of a request are
  optional in the protocol, so \<open>args\<close> may be \<open>undefined\<close>, which no object schema
  accepts. Every field of the schema is checked and all issues are reported together;
  keys the schema does not name are dropped. The result lists the fields of the schema
  with their parsed values.
\<close>

type_synonym parsed = "(string \<times> json option) list"

definition parse :: "zobject \<Rightarrow> jsobject option \<Rightarrow> issue list + parsed" where
  "parse shape args =
     (case args of
        None \<Rightarrow> Inl [\<lparr>path = [], message = ''Required''\<rparr>]
      | Some obj \<Rightarrow>
          (let rs = map (\<lambda>kt. zparse (snd kt) [fst kt] (map_of obj (fst kt))) shape
           in if list_all passed rs
              then Inr (zip (map fst shape) (map (\<lambda>r. case r of Inr v \<Rightarrow> v | Inl _ \<Rightarrow> None) rs))
              else Inl (concat (map issues_of rs))))"

definition SetArgumentsSchema :: zobject where
  "SetArgumentsSchema =
     [(''key'', ZString), (''value'', ZString), (''expireSeconds'', ZOptional ZNumber)]"

definition GetArgumentsSchema :: zobject where
  "GetArgumentsSchema = [(''key'', ZString)]"

definition DeleteArgumentsSchema :: zobject where
  "DeleteArgumentsSchema = [(''key'', ZOr ZString (ZArray ZString))]"

definition ListArgumentsSchema :: zobject where
  "ListArgumentsSchema = [(''pattern'', ZDefault ZString (JStr ''*''))]"

definition HSetArgumentsSchema :: zobject where
  "HSetArgumentsSchema = [(''key'', ZString), (''field'', ZString), (''value'', ZString)]"

definition HGetArgumentsSchema :: zobject where
  "HGetArgumentsSchema = [(''key'', ZString), (''field'', ZString)]"

definition HGetAllArgumentsSchema :: zobject where
  "HGetAllArgumentsSchema = [(''key'', ZString)]"

definition IncrArgumentsSchema :: zobject where
  "IncrArgumentsSchema = [(''key'', ZString)]"

definition ExpireArgumentsSchema :: zobject where
  "ExpireArgumentsSchema = [(''key'', ZString), (''seconds'', ZNumber)]"

definition LPushArgumentsSchema :: zobject where
  "LPushArgumentsSchema = [(''key'', ZString), (''value'', ZOr ZString (ZArray ZString))]"

definition RPushArgumentsSchema :: zobject where
  "RPushArgumentsSchema = [(''key'', ZString), (''value'', ZOr ZString (ZArray ZString))]"

definition LPopArgumentsSchema :: zobject where
  "LPopArgumentsSchema = [(''key'', ZString)]"

definition RPopArgumentsSchema :: zobject where
  "RPopArgumentsSchema = [(''key'', ZString)]"

definition LRangeArgumentsSchema :: zobject where
  "LRangeArgumentsSchema = [(''key'', ZString), (''start'', ZNumber), (''stop'', ZNumber)]"

definition ZAddArgumentsSchema :: zobject where
  "ZAddArgumentsSchema = [(''key'', ZString), (''score'', ZNumber), (''member'', ZString)]"

definition ZRangeArgumentsSchema :: zobject where
  "ZRangeArgumentsSchema =
     [(''key'', ZString), (''min'', ZNumber), (''max'', ZNumber),
      (''withScores'', ZOptional ZBoolean)]"

definition ZRemArgumentsSchema :: zobject where
  "ZRemArgumentsSchema = [(''key'', ZString), (''member'', ZOr ZString (ZArray ZString))]"

definition ZScoreArgumentsSchema :: zobject where
  "ZScoreArgumentsSchema = [(''key'', ZString), (''member'', ZString)]"

definition ZRankArgumentsSchema :: zobject where
  "ZRankArgumentsSchema = [(''key'', ZString), (''member'', ZString)]"

definition PublishArgumentsSchema :: zobject where
  "PublishArgumentsSchema = [(''channel'', ZString), (''message'', ZString)]"

definition SubscribeArgumentsSchema :: zobject where
  "SubscribeArgumentsSchema = [(''channel'', ZOr ZString (ZArray ZString))]"

definition UnsubscribeArgumentsSchema :: zobject where
  "UnsubscribeArgumentsSchema = [(''channel'', ZOptional (ZOr ZString (ZArray ZString)))]"

definition PubSubChannelsArgumentsSchema :: zobject where
  "PubSubChannelsArgumentsSchema = [(''pattern'', ZOptional ZString)]"

text \<open>
  What the validation is meant to decide, stated without the parser: a value has its
  declared type, and a field may be left out when its schema is optional or has a default.
\<close>

fun has_type :: "json \<Rightarrow> ztype \<Rightarrow> bool" where
  "has_type v ZString = (case v of JStr s \<Rightarrow> True | _ \<Rightarrow> False)"
| "has_type v ZNumber = (case v of JNum n \<Rightarrow> True | _ \<Rightarrow> False)"
| "has_type v ZBoolean = (case v of JBool b \<Rightarrow> True | _ \<Rightarrow> False)"
| "has_type v (ZArray t) =
     (case v of JArr xs \<Rightarrow> list_all (\<lambda>x. has_type x t) xs | _ \<Rightarrow> False)"
| "has_type v (ZOr a b) = (has_type v a \<or> has_type v b)"
| "has_type v (ZOptional t) = has_type v t"
| "has_type v (ZDefault t d) = has_type v t"

fun may_be_absent :: "ztype \<Rightarrow> bool" where
  "may_be_absent (ZOptional t) = True"
| "may_be_absent (ZDefault t d) = has_type d t"
| "may_be_absent (ZOr a b) = (may_be_absent a \<or> may_be_absent b)"
| "may_be_absent t = False"

text \<open>
  A field of a schema is violated by an arguments object when it is required and absent,
  or present with a value that fails its declared type.
\<close>

definition violated :: "jsobject \<Rightarrow> string \<times> ztype \<Rightarrow> bool" where
  "violated obj kt =
     (case map_of obj (fst kt) of
        None \<Rightarrow> \<not> may_be_absent (snd kt)
      | Some v \<Rightarrow> \<not> has_type v (snd kt))"

section \<open>The store client\<close>

text \<open>
  The store and its client library are outside the repository. A command is what a client
  method sends: its name and its arguments. Several methods take one string or an array
  of strings; the client appends a string as one argument and an array as its elements,
  in order.
\<close>

datatype variadic = Scalar string | Sequence "string list"

fun variadic_arguments :: "variadic \<Rightarrow> string list" where
  "variadic_arguments (Scalar x) = [x]"
| "variadic_arguments (Sequence xs) = xs"

datatype cmd =
    SET string string
  | SETEX string jsnumber string
  | GET string
  | DEL "string list"
  | KEYS string
  | HSET string string string
  | HGET string string
  | HGETALL string
  | INCR string
  | EXPIRE string jsnumber
  | LPUSH string "string list"
  | RPUSH string "string list"
  | LPOP string
  | RPOP string
  | LRANGE string jsnumber jsnumber
  | ZADD string "(jsnumber \<times> string) list"
  | ZRANGE string jsnumber jsnumber
  | ZRANGE_WITHSCORES string jsnumber jsnumber
  | ZREM string "string list"
  | ZSCORE string string
  | ZRANK string string
  | PUBLISH string string
  | PUBSUB_CHANNELS string

definition del :: "variadic \<Rightarrow> cmd" where
  "del keys = DEL (variadic_arguments keys)"

definition lPush :: "string \<Rightarrow> variadic \<Rightarrow> cmd" where
  "lPush key elements = LPUSH key (variadic_arguments elements)"

definition rPush :: "string \<Rightarrow> variadic \<Rightarrow> cmd" where
  "rPush key elements = RPUSH key (variadic_arguments elements)"

definition zRem :: "string \<Rightarrow> variadic \<Rightarrow> cmd" where
  "zRem key members = ZREM key (variadic_arguments members)"

text \<open>
  The value a client method resolves to: \<open>null\<close>, a string, a number, a boolean, an
  array of strings, the field-value pairs of a hash, or members with their scores.
\<close>

datatype reply =
    RNull
  | RStr string
  | RNum jsnumber
  | RBool bool
  | RList "string list"
  | RHash "(string \<times> string) list"
  | RScored "(string \<times> jsnumber) list"

text \<open>
  The store is a parameter: \<open>exec c s\<close> runs command \<open>c\<close> in store state \<open>s\<close> and gives
  the reply, or the message of the error the call is rejected with, and the next state.
\<close>

type_synonym 's exec = "cmd \<Rightarrow> 's \<Rightarrow> (string + reply) \<times> 's"

text \<open>\<open>logging exec\<close> is \<open>exec\<close> on a store that also records every command it is given.\<close>

definition logging :: "'s exec \<Rightarrow> ('s \<times> cmd list) exec" where
  "logging exec c sl =
     (case exec c (fst sl) of (r, s') \<Rightarrow> (r, (s', snd sl @ [c])))"

text \<open>The template rendering \<open>`${r}`\<close> of a reply, and its truthiness.\<close>

fun template :: "reply \<Rightarrow> string" where
  "template RNull = ''null''"
| "template (RStr t) = t"
| "template (RNum n) = number_text n"
| "template (RBool b) = (if b then ''true'' else ''false'')"
| "template (RList xs) = join '','' xs"
| "template (RHash kvs) = ''[object Object]''"
| "template (RScored xs) = join '','' (map (\<lambda>x. ''[object Object]'') xs)"

fun truthy :: "reply \<Rightarrow> bool" where
  "truthy RNull = False"
| "truthy (RStr t) = (t \<noteq> [])"
| "truthy (RNum n) = truthy_number n"
| "truthy (RBool b) = b"
| "truthy (RList xs) = True"
| "truthy (RHash kvs) = True"
| "truthy (RScored xs) = True"

section \<open>Tool handlers\<close>

text \<open>
  A handler reads the fields of its parsed arguments. After a successful \<open>parse\<close> each
  field has the type of its schema; the readers below return a fixed value on any other
  shape, which is never reached.
\<close>

definition arg :: "parsed \<Rightarrow> string \<Rightarrow> json option" where
  "arg v k = (case map_of v k of Some x \<Rightarrow> x | None \<Rightarrow> None)"

fun as_string :: "json option \<Rightarrow> string" where
  "as_string (Some (JStr s)) = s"
| "as_string _ = []"

fun as_number :: "json option \<Rightarrow> jsnumber" where
  "as_number (Some (JNum n)) = n"
| "as_number _ = Whole 0"

fun as_optional_number :: "json option \<Rightarrow> jsnumber option" where
  "as_optional_number (Some (JNum n)) = Some n"
| "as_optional_number _ = None"

fun as_optional_boolean :: "json option \<Rightarrow> bool option" where
  "as_optional_boolean (Some (JBool b)) = Some b"
| "as_optional_boolean _ = None"

fun as_optional_string :: "json option \<Rightarrow> string option" where
  "as_optional_string (Some (JStr s)) = Some s"
| "as_optional_string _ = None"

fun as_variadic :: "json option \<Rightarrow> variadic" where
  "as_variadic (Some (JArr xs)) = Sequence (map (\<lambda>x. as_string (Some x)) xs)"
| "as_variadic v = Scalar (as_string v)"

type_synonym 's outcome = "(error + string) \<times> 's"

text \<open>
  \<open>with_args\<close> is the first statement of every branch: parse the arguments, and leave the
  branch with the library's error when they are invalid. \<open>call\<close> is one awaited client
  call followed by the rest of the branch; a rejected call leaves the branch with the
  store's error.
\<close>

definition with_args :: "zobject \<Rightarrow> jsobject option \<Rightarrow> 's \<Rightarrow> (parsed \<Rightarrow> 's outcome) \<Rightarrow> 's outcome" where
  "with_args schema args s k =
     (case parse schema args of
        Inl iss \<Rightarrow> (Inl (ZodError iss), s)
      | Inr v \<Rightarrow> k v)"

definition call :: "'s exec \<Rightarrow> cmd \<Rightarrow> 's \<Rightarrow> (reply \<Rightarrow> error + string) \<Rightarrow> 's outcome" where
  "call exec c s k =
     (case exec c s of
        (Inl e, s') \<Rightarrow> (Inl (StoreError e), s')
      | (Inr r, s') \<Rightarrow> (k r, s'))"

text \<open>
  The list, sorted-set and publish branches answer in Chinese. Their fixed texts are
  given by their UTF-8 bytes; the margin says what each one means.
\<close>

definition txt_lpush :: string where \<comment> \<open>Added at the head of the list, new length: \<close>
  "txt_lpush =
     [CHR 0xE6, CHR 0x88, CHR 0x90, CHR 0xE5, CHR 0x8A, CHR 0x9F, CHR 0xE6, CHR 0xB7,
     CHR 0xBB, CHR 0xE5, CHR 0x8A, CHR 0xA0, CHR 0xE5, CHR 0x88, CHR 0xB0, CHR 0xE5,
     CHR 0x88, CHR 0x97, CHR 0xE8, CHR 0xA1, CHR 0xA8, CHR 0xE5, CHR 0xBC, CHR 0x80,
     CHR 0xE5, CHR 0xA4, CHR 0xB4, CHR 0xEF, CHR 0xBC, CHR 0x8C, CHR 0xE6, CHR 0x96,
     CHR 0xB0, CHR 0xE9, CHR 0x95, CHR 0xBF, CHR 0xE5, CHR 0xBA, CHR 0xA6] @ '': ''"

definition txt_rpush :: string where \<comment> \<open>Added at the tail of the list, new length: \<close>
  "txt_rpush =
     [CHR 0xE6, CHR 0x88, CHR 0x90, CHR 0xE5, CHR 0x8A, CHR 0x9F, CHR 0xE6, CHR 0xB7,
     CHR 0xBB, CHR 0xE5, CHR 0x8A, CHR 0xA0, CHR 0xE5, CHR 0x88, CHR 0xB0, CHR 0xE5,
     CHR 0x88, CHR 0x97, CHR 0xE8, CHR 0xA1, CHR 0xA8, CHR 0xE6, CHR 0x9C, CHR 0xAB,
     CHR 0xE5, CHR 0xB0, CHR 0xBE, CHR 0xEF, CHR 0xBC, CHR 0x8C, CHR 0xE6, CHR 0x96,
     CHR 0xB0, CHR 0xE9, CHR 0x95, CHR 0xBF, CHR 0xE5, CHR 0xBA, CHR 0xA6] @ '': ''"

definition txt_list_empty :: string where \<comment> \<open>The list is empty or does not exist: \<close>
  "txt_list_empty =
     [CHR 0xE5, CHR 0x88, CHR 0x97, CHR 0xE8, CHR 0xA1, CHR 0xA8, CHR 0xE4, CHR 0xB8,
     CHR 0xBA, CHR 0xE7, CHR 0xA9, CHR 0xBA, CHR 0xE6, CHR 0x88, CHR 0x96, CHR 0xE4,
     CHR 0xB8, CHR 0x8D, CHR 0xE5, CHR 0xAD, CHR 0x98, CHR 0xE5, CHR 0x9C, CHR 0xA8]
     @ '': ''"

definition txt_lrange_empty :: string where \<comment> \<open>No element in the range, or the list does not exist: \<close>
  "txt_lrange_empty =
     [CHR 0xE6, CHR 0x8C, CHR 0x87, CHR 0xE5, CHR 0xAE, CHR 0x9A, CHR 0xE8, CHR 0x8C,
     CHR 0x83, CHR 0xE5, CHR 0x9B, CHR 0xB4, CHR 0xE5, CHR 0x86, CHR 0x85, CHR 0xE6,
     CHR 0xB2, CHR 0xA1, CHR 0xE6, CHR 0x9C, CHR 0x89, CHR 0xE5, CHR 0x85, CHR 0x83,
     CHR 0xE7, CHR 0xB4, CHR 0xA0, CHR 0xE6, CHR 0x88, CHR 0x96, CHR 0xE5, CHR 0x88,
     CHR 0x97, CHR 0xE8, CHR 0xA1, CHR 0xA8, CHR 0xE4, CHR 0xB8, CHR 0x8D, CHR 0xE5,
     CHR 0xAD, CHR 0x98, CHR 0xE5, CHR 0x9C, CHR 0xA8] @ '': ''"

definition txt_zadd :: string where \<comment> \<open>Added to the sorted set, members affected: \<close>
  "txt_zadd =
     [CHR 0xE6, CHR 0x88, CHR 0x90, CHR 0xE5, CHR 0x8A, CHR 0x9F, CHR 0xE6, CHR 0xB7,
     CHR 0xBB, CHR 0xE5, CHR 0x8A, CHR 0xA0, CHR 0xE5, CHR 0x88, CHR 0xB0, CHR 0xE6,
     CHR 0x9C, CHR 0x89, CHR 0xE5, CHR 0xBA, CHR 0x8F, CHR 0xE9, CHR 0x9B, CHR 0x86,
     CHR 0xE5, CHR 0x90, CHR 0x88, CHR 0xEF, CHR 0xBC, CHR 0x8C, CHR 0xE5, CHR 0xBD,
     CHR 0xB1, CHR 0xE5, CHR 0x93, CHR 0x8D, CHR 0xE7, CHR 0x9A, CHR 0x84, CHR 0xE6,
     CHR 0x88, CHR 0x90, CHR 0xE5, CHR 0x91, CHR 0x98, CHR 0xE6, CHR 0x95, CHR 0xB0]
     @ '': ''"

definition txt_zrange_empty :: string where \<comment> \<open>No member in the range, or the sorted set does not exist: \<close>
  "txt_zrange_empty =
     [CHR 0xE6, CHR 0x8C, CHR 0x87, CHR 0xE5, CHR 0xAE, CHR 0x9A, CHR 0xE8, CHR 0x8C,
     CHR 0x83, CHR 0xE5, CHR 0x9B, CHR 0xB4, CHR 0xE5, CHR 0x86, CHR 0x85, CHR 0xE6,
     CHR 0xB2, CHR 0xA1, CHR 0xE6, CHR 0x9C, CHR 0x89, CHR 0xE6, CHR 0x88, CHR 0x90,
     CHR 0xE5, CHR 0x91, CHR 0x98, CHR 0xE6, CHR 0x88, CHR 0x96, CHR 0xE6, CHR 0x9C,
     CHR 0x89, CHR 0xE5, CHR 0xBA, CHR 0x8F, CHR 0xE9, CHR 0x9B, CHR 0x86, CHR 0xE5,
     CHR 0x90, CHR 0x88, CHR 0xE4, CHR 0xB8, CHR 0x8D, CHR 0xE5, CHR 0xAD, CHR 0x98,
     CHR 0xE5, CHR 0x9C, CHR 0xA8] @ '': ''"

definition txt_zrem_removed :: string where \<comment> \<open>Removed from the sorted set: \<close>
  "txt_zrem_removed =
     [CHR 0xE4, CHR 0xBB, CHR 0x8E, CHR 0xE6, CHR 0x9C, CHR 0x89, CHR 0xE5, CHR 0xBA,
     CHR 0x8F, CHR 0xE9, CHR 0x9B, CHR 0x86, CHR 0xE5, CHR 0x90, CHR 0x88, CHR 0xE4,
     CHR 0xB8, CHR 0xAD, CHR 0xE7, CHR 0xA7, CHR 0xBB, CHR 0xE9, CHR 0x99, CHR 0xA4,
     CHR 0xE4, CHR 0xBA, CHR 0x86] @ '' ''"

definition txt_zrem_members :: string where \<comment> \<open> members: \<close>
  "txt_zrem_members =
     '' '' @ [CHR 0xE4, CHR 0xB8, CHR 0xAA, CHR 0xE6, CHR 0x88, CHR 0x90, CHR 0xE5,
     CHR 0x91, CHR 0x98] @ '': ''"

definition txt_member_missing :: string where \<comment> \<open>The member is not in the sorted set: \<close>
  "txt_member_missing =
     [CHR 0xE6, CHR 0x88, CHR 0x90, CHR 0xE5, CHR 0x91, CHR 0x98, CHR 0xE5, CHR 0x9C,
     CHR 0xA8, CHR 0xE6, CHR 0x9C, CHR 0x89, CHR 0xE5, CHR 0xBA, CHR 0x8F, CHR 0xE9,
     CHR 0x9B, CHR 0x86, CHR 0xE5, CHR 0x90, CHR 0x88, CHR 0xE4, CHR 0xB8, CHR 0xAD,
     CHR 0xE4, CHR 0xB8, CHR 0x8D, CHR 0xE5, CHR 0xAD, CHR 0x98, CHR 0xE5, CHR 0x9C,
     CHR 0xA8] @ '': ''"

definition txt_score :: string where \<comment> \<open>Score: \<close>
  "txt_score =
     [CHR 0xE5, CHR 0x88, CHR 0x86, CHR 0xE6, CHR 0x95, CHR 0xB0] @ '': ''"

definition txt_rank :: string where \<comment> \<open>Rank: \<close>
  "txt_rank =
     [CHR 0xE6, CHR 0x8E, CHR 0x92, CHR 0xE5, CHR 0x90, CHR 0x8D] @ '': ''"

definition txt_published :: string where \<comment> \<open>Message published to channel \<close>
  "txt_published =
     [CHR 0xE6, CHR 0xB6, CHR 0x88, CHR 0xE6, CHR 0x81, CHR 0xAF, CHR 0xE5, CHR 0xB7,
     CHR 0xB2, CHR 0xE5, CHR 0x8F, CHR 0x91, CHR 0xE5, CHR 0xB8, CHR 0x83, CHR 0xE5,
     CHR 0x88, CHR 0xB0, CHR 0xE9, CHR 0xA2, CHR 0x91, CHR 0xE9, CHR 0x81, CHR 0x93] @ '' ''"

definition txt_published_has :: string where \<comment> \<open>, \<close>
  "txt_published_has =
     [CHR 0xEF, CHR 0xBC, CHR 0x8C, CHR 0xE6, CHR 0x9C, CHR 0x89] @ '' ''"

definition txt_published_received :: string where \<comment> \<open> subscribers received the message\<close>
  "txt_published_received =
     '' '' @ [CHR 0xE4, CHR 0xB8, CHR 0xAA, CHR 0xE8, CHR 0xAE, CHR 0xA2, CHR 0xE9,
     CHR 0x98, CHR 0x85, CHR 0xE8, CHR 0x80, CHR 0x85, CHR 0xE6, CHR 0x8E, CHR 0xA5,
     CHR 0xE6, CHR 0x94, CHR 0xB6, CHR 0xE5, CHR 0x88, CHR 0xB0, CHR 0xE6, CHR 0xB6,
     CHR 0x88, CHR 0xE6, CHR 0x81, CHR 0xAF]"

definition txt_no_channels :: string where \<comment> \<open>No active channel found\<close>
  "txt_no_channels =
     [CHR 0xE6, CHR 0xB2, CHR 0xA1, CHR 0xE6, CHR 0x9C, CHR 0x89, CHR 0xE6, CHR 0x89,
     CHR 0xBE, CHR 0xE5, CHR 0x88, CHR 0xB0, CHR 0xE6, CHR 0xB4, CHR 0xBB, CHR 0xE8,
     CHR 0xB7, CHR 0x83, CHR 0xE7, CHR 0x9A, CHR 0x84, CHR 0xE9, CHR 0xA2, CHR 0x91,
     CHR 0xE9, CHR 0x81, CHR 0x93]"

definition txt_matching :: string where \<comment> \<open>matching pattern \<close>
  "txt_matching =
     [CHR 0xE5, CHR 0x8C, CHR 0xB9, CHR 0xE9, CHR 0x85, CHR 0x8D, CHR 0xE6, CHR 0xA8,
     CHR 0xA1, CHR 0xE5, CHR 0xBC, CHR 0x8F] @ '' ''"

definition txt_channels :: string where \<comment> \<open>Active channels:, then a line break\<close>
  "txt_channels =
     [CHR 0xE6, CHR 0xB4, CHR 0xBB, CHR 0xE8, CHR 0xB7, CHR 0x83, CHR 0xE7, CHR 0x9A,
     CHR 0x84, CHR 0xE9, CHR 0xA2, CHR 0x91, CHR 0xE9, CHR 0x81, CHR 0x93] @ '':\<newline>''"

text \<open>
  One definition for each branch of the request handler. Where the client types a reply
  as an array or as a hash, a reply of another shape is outside the client's contract;
  the handler then fails with the runtime's type error.
\<close>

definition handle_set :: "'s exec \<Rightarrow> jsobject option \<Rightarrow> 's \<Rightarrow> 's outcome" where
  "handle_set exec args s =
     with_args SetArgumentsSchema args s (\<lambda>v.
       let key = as_string (arg v ''key'');
           val = as_string (arg v ''value'');
           expireSeconds = as_optional_number (arg v ''expireSeconds'')
       in (case expireSeconds of
             Some n \<Rightarrow>
               (if truthy_number n
                then call exec (SETEX key n val) s (\<lambda>_. Inr (''Successfully set key: '' @ key))
                else call exec (SET key val) s (\<lambda>_. Inr (''Successfully set key: '' @ key)))
           | None \<Rightarrow> call exec (SET key val) s (\<lambda>_. Inr (''Successfully set key: '' @ key))))"

definition handle_get :: "'s exec \<Rightarrow> jsobject option \<Rightarrow> 's \<Rightarrow> 's outcome" where
  "handle_get exec args s =
     with_args GetArgumentsSchema args s (\<lambda>v.
       let key = as_string (arg v ''key'')
       in call exec (GET key) s (\<lambda>val.
            if val = RNull then Inr (''Key not found: '' @ key)
            else Inr (template val)))"

definition handle_delete :: "'s exec \<Rightarrow> jsobject option \<Rightarrow> 's \<Rightarrow> 's outcome" where
  "handle_delete exec args s =
     with_args DeleteArgumentsSchema args s (\<lambda>v.
       let key = as_variadic (arg v ''key'')
       in (case key of
             Sequence ks \<Rightarrow>
               call exec (del key) s (\<lambda>_.
                 Inr (''Successfully deleted '' @ dec (length ks) @ '' keys''))
           | Scalar k \<Rightarrow>
               call exec (del key) s (\<lambda>_. Inr (''Successfully deleted key: '' @ k))))"

definition handle_list :: "'s exec \<Rightarrow> jsobject option \<Rightarrow> 's \<Rightarrow> 's outcome" where
  "handle_list exec args s =
     with_args ListArgumentsSchema args s (\<lambda>v.
       let pattern = as_string (arg v ''pattern'')
       in call exec (KEYS pattern) s (\<lambda>keys.
            case keys of
              RList ks \<Rightarrow>
                Inr (if length ks > 0 then ''Found keys:\<newline>'' @ join ''\<newline>'' ks
                     else ''No keys found matching pattern'')
            | _ \<Rightarrow> Inl TypeError))"

definition handle_hset :: "'s exec \<Rightarrow> jsobject option \<Rightarrow> 's \<Rightarrow> 's outcome" where
  "handle_hset exec args s =
     with_args HSetArgumentsSchema args s (\<lambda>v.
       let key = as_string (arg v ''key'');
           fld = as_string (arg v ''field'');
           val = as_string (arg v ''value'')
       in call exec (HSET key fld val) s (\<lambda>_.
            Inr (''Successfully set hash field '' @ fld @ '' in key: '' @ key)))"

definition handle_hget :: "'s exec \<Rightarrow> jsobject option \<Rightarrow> 's \<Rightarrow> 's outcome" where
  "handle_hget exec args s =
     with_args HGetArgumentsSchema args s (\<lambda>v.
       let key = as_string (arg v ''key'');
           fld = as_string (arg v ''field'')
       in call exec (HGET key fld) s (\<lambda>val.
            if val = RNull then Inr (''Field '' @ fld @ '' not found in hash key: '' @ key)
            else Inr (template val)))"

definition handle_hgetall :: "'s exec \<Rightarrow> jsobject option \<Rightarrow> 's \<Rightarrow> 's outcome" where
  "handle_hgetall exec args s =
     with_args HGetAllArgumentsSchema args s (\<lambda>v.
       let key = as_string (arg v ''key'')
       in call exec (HGETALL key) s (\<lambda>hashData.
            case hashData of
              RHash kvs \<Rightarrow>
                (if length kvs = 0 then Inr (''Hash key not found or empty: '' @ key)
                 else Inr (join ''\<newline>'' (map (\<lambda>fv. fst fv @ '': '' @ snd fv) kvs)))
            | _ \<Rightarrow> Inl TypeError))"

definition handle_incr :: "'s exec \<Rightarrow> jsobject option \<Rightarrow> 's \<Rightarrow> 's outcome" where
  "handle_incr exec args s =
     with_args IncrArgumentsSchema args s (\<lambda>v.
       let key = as_string (arg v ''key'')
       in call exec (INCR key) s (\<lambda>newValue.
            Inr (''Incremented key: '' @ key @ '', new value: '' @ template newValue)))"

definition handle_expire :: "'s exec \<Rightarrow> jsobject option \<Rightarrow> 's \<Rightarrow> 's outcome" where
  "handle_expire exec args s =
     with_args ExpireArgumentsSchema args s (\<lambda>v.
       let key = as_string (arg v ''key'');
           seconds = as_number (arg v ''seconds'')
       in call exec (EXPIRE key seconds) s (\<lambda>result.
            if truthy result
            then Inr (''Successfully set expiration of '' @ number_text seconds
                      @ '' seconds for key: '' @ key)
            else Inr (''Failed to set expiration: key '' @ key @ '' does not exist'')))"

definition handle_lpush :: "'s exec \<Rightarrow> jsobject option \<Rightarrow> 's \<Rightarrow> 's outcome" where
  "handle_lpush exec args s =
     with_args LPushArgumentsSchema args s (\<lambda>v.
       let key = as_string (arg v ''key'');
           val = as_variadic (arg v ''value'')
       in (case val of
             Sequence _ \<Rightarrow> call exec (lPush key val) s (\<lambda>result. Inr (txt_lpush @ template result))
           | Scalar _ \<Rightarrow> call exec (lPush key val) s (\<lambda>result. Inr (txt_lpush @ template result))))"

definition handle_rpush :: "'s exec \<Rightarrow> jsobject option \<Rightarrow> 's \<Rightarrow> 's outcome" where
  "handle_rpush exec args s =
     with_args RPushArgumentsSchema args s (\<lambda>v.
       let key = as_string (arg v ''key'');
           val = as_variadic (arg v ''value'')
       in (case val of
             Sequence _ \<Rightarrow> call exec (rPush key val) s (\<lambda>result. Inr (txt_rpush @ template result))
           | Scalar _ \<Rightarrow> call exec (rPush key val) s (\<lambda>result. Inr (txt_rpush @ template result))))"

definition handle_lpop :: "'s exec \<Rightarrow> jsobject option \<Rightarrow> 's \<Rightarrow> 's outcome" where
  "handle_lpop exec args s =
     with_args LPopArgumentsSchema args s (\<lambda>v.
       let key = as_string (arg v ''key'')
       in call exec (LPOP key) s (\<lambda>result.
            case result of
              RNull \<Rightarrow> Inr (txt_list_empty @ key)
            | RStr t \<Rightarrow> Inr t
            | _ \<Rightarrow> Inl TypeError))"

definition handle_rpop :: "'s exec \<Rightarrow> jsobject option \<Rightarrow> 's \<Rightarrow> 's outcome" where
  "handle_rpop exec args s =
     with_args RPopArgumentsSchema args s (\<lambda>v.
       let key = as_string (arg v ''key'')
       in call exec (RPOP key) s (\<lambda>result.
            case result of
              RNull \<Rightarrow> Inr (txt_list_empty @ key)
            | RStr t \<Rightarrow> Inr t
            | _ \<Rightarrow> Inl TypeError))"

definition handle_lrange :: "'s exec \<Rightarrow> jsobject option \<Rightarrow> 's \<Rightarrow> 's outcome" where
  "handle_lrange exec args s =
     with_args LRangeArgumentsSchema args s (\<lambda>v.
       let key = as_string (arg v ''key'');
           start = as_number (arg v ''start'');
           stop = as_number (arg v ''stop'')
       in call exec (LRANGE key start stop) s (\<lambda>result.
            case result of
              RList xs \<Rightarrow>
                (if length xs = 0 then Inr (txt_lrange_empty @ key)
                 else Inr (join ''\<newline>'' xs))
            | _ \<Rightarrow> Inl TypeError))"

definition handle_zadd :: "'s exec \<Rightarrow> jsobject option \<Rightarrow> 's \<Rightarrow> 's outcome" where
  "handle_zadd exec args s =
     with_args ZAddArgumentsSchema args s (\<lambda>v.
       let key = as_string (arg v ''key'');
           score = as_number (arg v ''score'');
           memb = as_string (arg v ''member'')
       in call exec (ZADD key [(score, memb)]) s (\<lambda>result.
            Inr (txt_zadd @ template result)))"

definition handle_zrange :: "'s exec \<Rightarrow> jsobject option \<Rightarrow> 's \<Rightarrow> 's outcome" where
  "handle_zrange exec args s =
     with_args ZRangeArgumentsSchema args s (\<lambda>v.
       let key = as_string (arg v ''key'');
           zmin = as_number (arg v ''min'');
           zmax = as_number (arg v ''max'');
           withScores = as_optional_boolean (arg v ''withScores'')
       in if withScores = Some True
          then call exec (ZRANGE_WITHSCORES key zmin zmax) s (\<lambda>result.
                 case result of
                   RScored items \<Rightarrow>
                     (if length items = 0 then Inr (txt_zrange_empty @ key)
                      else Inr (join ''\<newline>''
                                 (map (\<lambda>item. fst item @ '': '' @ number_text (snd item)) items)))
                 | _ \<Rightarrow> Inl TypeError)
          else call exec (ZRANGE key zmin zmax) s (\<lambda>result.
                 case result of
                   RList xs \<Rightarrow>
                     (if length xs = 0 then Inr (txt_zrange_empty @ key)
                      else Inr (join ''\<newline>'' xs))
                 | _ \<Rightarrow> Inl TypeError))"

definition handle_zrem :: "'s exec \<Rightarrow> jsobject option \<Rightarrow> 's \<Rightarrow> 's outcome" where
  "handle_zrem exec args s =
     with_args ZRemArgumentsSchema args s (\<lambda>v.
       let key = as_string (arg v ''key'');
           memb = as_variadic (arg v ''member'')
       in (case memb of
             Sequence _ \<Rightarrow>
               call exec (zRem key memb) s (\<lambda>result.
                 Inr (txt_zrem_removed @ template result @ txt_zrem_members @ key))
           | Scalar _ \<Rightarrow>
               call exec (zRem key memb) s (\<lambda>result.
                 Inr (txt_zrem_removed @ template result @ txt_zrem_members @ key))))"

definition handle_zscore :: "'s exec \<Rightarrow> jsobject option \<Rightarrow> 's \<Rightarrow> 's outcome" where
  "handle_zscore exec args s =
     with_args ZScoreArgumentsSchema args s (\<lambda>v.
       let key = as_string (arg v ''key'');
           memb = as_string (arg v ''member'')
       in call exec (ZSCORE key memb) s (\<lambda>result.
            if result = RNull then Inr (txt_member_missing @ key)
            else Inr (txt_score @ template result)))"

definition handle_zrank :: "'s exec \<Rightarrow> jsobject option \<Rightarrow> 's \<Rightarrow> 's outcome" where
  "handle_zrank exec args s =
     with_args ZRankArgumentsSchema args s (\<lambda>v.
       let key = as_string (arg v ''key'');
           memb = as_string (arg v ''member'')
       in call exec (ZRANK key memb) s (\<lambda>result.
            if result = RNull then Inr (txt_member_missing @ key)
            else Inr (txt_rank @ template result)))"

definition handle_publish :: "'s exec \<Rightarrow> jsobject option \<Rightarrow> 's \<Rightarrow> 's outcome" where
  "handle_publish exec args s =
     with_args PublishArgumentsSchema args s (\<lambda>v.
       let channel = as_string (arg v ''channel'');
           msg = as_string (arg v ''message'')
       in call exec (PUBLISH channel msg) s (\<lambda>subscriberCount.
            Inr (txt_published @ channel @ txt_published_has @ template subscriberCount
                 @ txt_published_received)))"

definition handle_pubsub_channels :: "'s exec \<Rightarrow> jsobject option \<Rightarrow> 's \<Rightarrow> 's outcome" where
  "handle_pubsub_channels exec args s =
     with_args PubSubChannelsArgumentsSchema args s (\<lambda>v.
       let pattern = as_optional_string (arg v ''pattern'')
       in call exec
            (PUBSUB_CHANNELS (case pattern of Some p \<Rightarrow> if p \<noteq> [] then p else ''*'' | None \<Rightarrow> ''*''))
            s
            (\<lambda>channels.
               case channels of
                 RList cs \<Rightarrow>
                   (if length cs = 0
                    then Inr (txt_no_channels
                              @ (case pattern of
                                   Some p \<Rightarrow> if p \<noteq> [] then txt_matching @ p else []
                                 | None \<Rightarrow> []))
                    else Inr (txt_channels @ join ''\<newline>'' cs))
               | _ \<Rightarrow> Inl TypeError))"

text \<open>
  The request handler: the chain of comparisons of the tool name, inside the
  \<open>try\<close> block, and the \<open>catch\<close> block that rewrites a validation error into
  \<open>Invalid arguments: path: message, ...\<close> and rethrows any other error.
\<close>

definition dispatch :: "'s exec \<Rightarrow> string \<Rightarrow> jsobject option \<Rightarrow> 's \<Rightarrow> 's outcome" where
  "dispatch exec name args s =
     (if name = ''set'' then handle_set exec args s
      else if name = ''get'' then handle_get exec args s
      else if name = ''delete'' then handle_delete exec args s
      else if name = ''list'' then handle_list exec args s
      else if name = ''hset'' then handle_hset exec args s
      else if name = ''hget'' then handle_hget exec args s
      else if name = ''hgetall'' then handle_hgetall exec args s
      else if name = ''incr'' then handle_incr exec args s
      else if name = ''expire'' then handle_expire exec args s
      else if name = ''lpush'' then handle_lpush exec args s
      else if name = ''rpush'' then handle_rpush exec args s
      else if name = ''lpop'' then handle_lpop exec args s
      else if name = ''rpop'' then handle_rpop exec args s
      else if name = ''lrange'' then handle_lrange exec args s
      else if name = ''zadd'' then handle_zadd exec args s
      else if name = ''zrange'' then handle_zrange exec args s
      else if name = ''zrem'' then handle_zrem exec args s
      else if name = ''zscore'' then handle_zscore exec args s
      else if name = ''zrank'' then handle_zrank exec args s
      else if name = ''publish'' then handle_publish exec args s
      else if name = ''pubsub_channels'' then handle_pubsub_channels exec args s
      else (Inl (Error (''Unknown tool: '' @ name)), s))"

definition issue_text :: "issue \<Rightarrow> string" where
  "issue_text e = join ''.'' (path e) @ '': '' @ message e"

definition InvalidArguments :: "issue list \<Rightarrow> error" where
  "InvalidArguments iss = Error (''Invalid arguments: '' @ join '', '' (map issue_text iss))"

definition callTool :: "'s exec \<Rightarrow> string \<Rightarrow> jsobject option \<Rightarrow> 's \<Rightarrow> 's outcome" where
  "callTool exec name args s =
     (case dispatch exec name args s of
        (Inl (ZodError iss), s') \<Rightarrow> (Inl (InvalidArguments iss), s')
      | r \<Rightarrow> r)"

text \<open>The schema a tool name is validated against, read off the branches above.\<close>

definition schema_of :: "string \<Rightarrow> zobject option" where
  "schema_of name =
     map_of
       [(''set'', SetArgumentsSchema), (''get'', GetArgumentsSchema),
        (''delete'', DeleteArgumentsSchema), (''list'', ListArgumentsSchema),
        (''hset'', HSetArgumentsSchema), (''hget'', HGetArgumentsSchema),
        (''hgetall'', HGetAllArgumentsSchema), (''incr'', IncrArgumentsSchema),
        (''expire'', ExpireArgumentsSchema), (''lpush'', LPushArgumentsSchema),
        (''rpush'', RPushArgumentsSchema), (''lpop'', LPopArgumentsSchema),
        (''rpop'', RPopArgumentsSchema), (''lrange'', LRangeArgumentsSchema),
        (''zadd'', ZAddArgumentsSchema), (''zrange'', ZRangeArgumentsSchema),
        (''zrem'', ZRemArgumentsSchema), (''zscore'', ZScoreArgumentsSchema),
        (''zrank'', ZRankArgumentsSchema), (''publish'', PublishArgumentsSchema),
        (''pubsub_channels'', PubSubChannelsArgumentsSchema)]
       name"

section \<open>The tool listing\<close>

text \<open>
  The answer to a listing request. Each entry has a name, a description and an input
  schema with the descriptors of its properties and the list of required properties; the
  description texts are left out. Sixteen entries describe a property by a type
  descriptor (\<open>{ type: "string" }\<close>, or \<open>oneOf\<close> a string and an array of strings). The
  five sorted-set entries put the validator value itself (\<open>z.string()\<close>,
  \<open>z.number()\<close>, \<dots>) where the descriptor belongs.
\<close>

datatype descriptor =
    TypeDescriptor string
  | ArrayDescriptor descriptor
  | OneOf "descriptor list"
  | Validator ztype

record tool =
  tool_name :: string
  tool_properties :: "(string \<times> descriptor) list"
  tool_required :: "string list"

definition string_or_array :: descriptor where
  "string_or_array = OneOf [TypeDescriptor ''string'', ArrayDescriptor (TypeDescriptor ''string'')]"

definition tools :: "tool list" where
  "tools =
     [\<lparr>tool_name = ''set'',
       tool_properties = [(''key'', TypeDescriptor ''string''), (''value'', TypeDescriptor ''string''),
                          (''expireSeconds'', TypeDescriptor ''number'')],
       tool_required = [''key'', ''value'']\<rparr>,
      \<lparr>tool_name = ''get'',
       tool_properties = [(''key'', TypeDescriptor ''string'')],
       tool_required = [''key'']\<rparr>,
      \<lparr>tool_name = ''delete'',
       tool_properties = [(''key'', string_or_array)],
       tool_required = [''key'']\<rparr>,
      \<lparr>tool_name = ''list'',
       tool_properties = [(''pattern'', TypeDescriptor ''string'')],
       tool_required = []\<rparr>,
      \<lparr>tool_name = ''hset'',
       tool_properties = [(''key'', TypeDescriptor ''string''), (''field'', TypeDescriptor ''string''),
                          (''value'', TypeDescriptor ''string'')],
       tool_required = [''key'', ''field'', ''value'']\<rparr>,
      \<lparr>tool_name = ''hget'',
       tool_properties = [(''key'', TypeDescriptor ''string''), (''field'', TypeDescriptor ''string'')],
       tool_required = [''key'', ''field'']\<rparr>,
      \<lparr>tool_name = ''hgetall'',
       tool_properties = [(''key'', TypeDescriptor ''string'')],
       tool_required = [''key'']\<rparr>,
      \<lparr>tool_name = ''incr'',
       tool_properties = [(''key'', TypeDescriptor ''string'')],
       tool_required = [''key'']\<rparr>,
      \<lparr>tool_name = ''expire'',
       tool_properties = [(''key'', TypeDescriptor ''string''), (''seconds'', TypeDescriptor ''number'')],
       tool_required = [''key'', ''seconds'']\<rparr>,
      \<lparr>tool_name = ''lpush'',
       tool_properties = [(''key'', TypeDescriptor ''string''), (''value'', string_or_array)],
       tool_required = [''key'', ''value'']\<rparr>,
      \<lparr>tool_name = ''rpush'',
       tool_properties = [(''key'', TypeDescriptor ''string''), (''value'', string_or_array)],
       tool_required = [''key'', ''value'']\<rparr>,
      \<lparr>tool_name = ''lpop'',
       tool_properties = [(''key'', TypeDescriptor ''string'')],
       tool_required = [''key'']\<rparr>,
      \<lparr>tool_name = ''rpop'',
       tool_properties = [(''key'', TypeDescriptor ''string'')],
       tool_required = [''key'']\<rparr>,
      \<lparr>tool_name = ''lrange'',
       tool_properties = [(''key'', TypeDescriptor ''string''), (''start'', TypeDescriptor ''number''),
                          (''stop'', TypeDescriptor ''number'')],
       tool_required = [''key'', ''start'', ''stop'']\<rparr>,
      \<lparr>tool_name = ''zadd'',
       tool_properties = [(''key'', Validator ZString), (''score'', Validator ZNumber),
                          (''member'', Validator ZString)],
       tool_required = [''key'', ''score'', ''member'']\<rparr>,
      \<lparr>tool_name = ''zrange'',
       tool_properties = [(''key'', Validator ZString), (''min'', Validator ZNumber),
                          (''max'', Validator ZNumber),
                          (''withScores'', Validator (ZOptional ZBoolean))],
       tool_required = [''key'', ''min'', ''max'']\<rparr>,
      \<lparr>tool_name = ''zrem'',
       tool_properties = [(''key'', Validator ZString),
                          (''member'', Validator (ZOr ZString (ZArray ZString)))],
       tool_required = [''key'', ''member'']\<rparr>,
      \<lparr>tool_name = ''zscore'',
       tool_properties = [(''key'', Validator ZString), (''member'', Validator ZString)],
       tool_required = [''key'', ''member'']\<rparr>,
      \<lparr>tool_name = ''zrank'',
       tool_properties = [(''key'', Validator ZString), (''member'', Validator ZString)],
       tool_required = [''key'', ''member'']\<rparr>,
      \<lparr>tool_name = ''publish'',
       tool_properties = [(''channel'', TypeDescriptor ''string''), (''message'', TypeDescriptor ''string'')],
       tool_required = [''channel'', ''message'']\<rparr>,
      \<lparr>tool_name = ''pubsub_channels'',
       tool_properties = [(''pattern'', TypeDescriptor ''string'')],
       tool_required = []\<rparr>]"

text \<open>
  What an advertised schema asks of an arguments object, read as a JSON Schema: every
  required property is present, and every described property that is present conforms to
  its descriptor. A serialised validator value carries no keyword of JSON Schema, so as a
  descriptor it constrains nothing.
\<close>

fun json_type :: "json \<Rightarrow> string" where
  "json_type JNull = ''null''"
| "json_type (JBool b) = ''boolean''"
| "json_type (JNum n) = ''number''"
| "json_type (JStr s) = ''string''"
| "json_type (JArr xs) = ''array''"
| "json_type (JObj kvs) = ''object''"

fun conforms :: "json \<Rightarrow> descriptor \<Rightarrow> bool" where
  "conforms v (TypeDescriptor t) = (json_type v = t)"
| "conforms v (ArrayDescriptor d) =
     (case v of JArr xs \<Rightarrow> list_all (\<lambda>x. conforms x d) xs | _ \<Rightarrow> False)"
| "conforms v (OneOf ds) = (length (filter (\<lambda>d. conforms v d) ds) = 1)"
| "conforms v (Validator t) = True"

definition advertised_accepts :: "tool \<Rightarrow> jsobject \<Rightarrow> bool" where
  "advertised_accepts entry obj =
     (list_all (\<lambda>k. map_of obj k \<noteq> None) (tool_required entry)
      \<and> list_all (\<lambda>kd. case map_of obj (fst kd) of None \<Rightarrow> True | Some v \<Rightarrow> conforms v (snd kd))
           (tool_properties entry))"

text \<open>The descriptor that says what a validator checks.\<close>

fun descriptor_of :: "ztype \<Rightarrow> descriptor" where
  "descriptor_of ZString = TypeDescriptor ''string''"
| "descriptor_of ZNumber = TypeDescriptor ''number''"
| "descriptor_of ZBoolean = TypeDescriptor ''boolean''"
| "descriptor_of (ZArray t) = ArrayDescriptor (descriptor_of t)"
| "descriptor_of (ZOr a b) = OneOf [descriptor_of a, descriptor_of b]"
| "descriptor_of (ZOptional t) = descriptor_of t"
| "descriptor_of (ZDefault t d) = descriptor_of t"

section \<open>Auxiliary notions for the properties\<close>

text \<open>
  The ways a branch can end once its arguments are valid: with a text, with the store's
  error, or with a type error on a malformed reply.
\<close>

fun after_validation :: "error + string \<Rightarrow> bool" where
  "after_validation (Inr t) = True"
| "after_validation (Inl (StoreError e)) = True"
| "after_validation (Inl TypeError) = True"
| "after_validation (Inl e) = False"

text \<open>The entry the listing holds for a name, and the names of the listing in its order.\<close>

definition entry_of :: "string \<Rightarrow> tool option" where
  "entry_of name = find (\<lambda>e. tool_name e = name) tools"

definition tool_names :: "string list" where
  "tool_names = map tool_name tools"

text \<open>
  The JSON form of a value that is one string or an array of strings, for stating what a
  request carries.
\<close>

fun variadic_json :: "variadic \<Rightarrow> json" where
  "variadic_json (Scalar x) = JStr x"
| "variadic_json (Sequence xs) = JArr (map JStr xs)"

text \<open>The text the \<open>delete\<close> branch answers with, by the shape of its key.\<close>

definition delete_text :: "variadic \<Rightarrow> string" where
  "delete_text v =
     (case v of
        Sequence ks \<Rightarrow> ''Successfully deleted '' @ dec (length ks) @ '' keys''
      | Scalar k \<Rightarrow> ''Successfully deleted key: '' @ k)"

section \<open>Example stores\<close>

text \<open>\<open>null_store\<close> answers every command with \<open>null\<close> and has no state.\<close>

definition null_store :: "unit exec" where
  "null_store c s = (Inr RNull, s)"

text \<open>
  \<open>memory_store\<close> keeps strings and sorted sets in memory and answers \<open>GET\<close>, \<open>SET\<close>,
  \<open>DEL\<close>, \<open>ZADD\<close>, \<open>ZSCORE\<close> and \<open>ZREM\<close> as the store's command reference describes;
  it rejects every other command. It serves to instantiate the store parameter.
\<close>

datatype stored = Str string | ZSet "(string \<times> jsnumber) list"

type_synonym memory = "(string \<times> stored) list"

definition wrongtype :: string where
  "wrongtype = ''WRONGTYPE Operation against a key holding the wrong kind of value''"

definition arity :: string where
  "arity = ''ERR wrong number of arguments''"

definition zset_put :: "(string \<times> jsnumber) list \<Rightarrow> jsnumber \<times> string \<Rightarrow> (string \<times> jsnumber) list" where
  "zset_put z p = (snd p, fst p) # filter (\<lambda>e. fst e \<noteq> snd p) z"

definition zadd_into :: "string \<Rightarrow> (jsnumber \<times> string) list \<Rightarrow> (string \<times> jsnumber) list \<Rightarrow> memory \<Rightarrow> (string + reply) \<times> memory" where
  "zadd_into k pairs z s =
     (if pairs = [] then (Inl arity, s)
      else (Inr (RNum (Whole (int (length (filter (\<lambda>m. map_of z m = None) (remdups (map snd pairs))))))),
            (k, ZSet (foldl zset_put z pairs)) # s))"

fun memory_store :: "memory exec" where
  "memory_store (GET k) s =
     (case map_of s k of
        None \<Rightarrow> (Inr RNull, s)
      | Some (Str v) \<Rightarrow> (Inr (RStr v), s)
      | Some (ZSet z) \<Rightarrow> (Inl wrongtype, s))"
| "memory_store (SET k v) s = (Inr (RStr ''OK''), (k, Str v) # s)"
| "memory_store (DEL ks) s =
     (if ks = [] then (Inl arity, s)
      else (Inr (RNum (Whole (int (length (filter (\<lambda>k. map_of s k \<noteq> None) (remdups ks)))))),
            filter (\<lambda>kv. fst kv \<notin> set ks) s))"
| "memory_store (ZADD k pairs) s =
     (case map_of s k of
        None \<Rightarrow> zadd_into k pairs [] s
      | Some (Str v) \<Rightarrow> (Inl wrongtype, s)
      | Some (ZSet z) \<Rightarrow> zadd_into k pairs z s)"
| "memory_store (ZSCORE k m) s =
     (case map_of s k of
        None \<Rightarrow> (Inr RNull, s)
      | Some (Str v) \<Rightarrow> (Inl wrongtype, s)
      | Some (ZSet z) \<Rightarrow>
          (case map_of z m of None \<Rightarrow> (Inr RNull, s) | Some score \<Rightarrow> (Inr (RNum score), s)))"
| "memory_store (ZREM k ms) s =
     (if ms = [] then (Inl arity, s)
      else (case map_of s k of
              None \<Rightarrow> (Inr (RNum (Whole 0)), s)
            | Some (Str v) \<Rightarrow> (Inl wrongtype, s)
            | Some (ZSet z) \<Rightarrow>
                (Inr (RNum (Whole (int (length (filter (\<lambda>m. map_of z m \<noteq> None) (remdups ms)))))),
                 (let z' = filter (\<lambda>e. fst e \<notin> set ms) z
                  in if z' = [] then filter (\<lambda>kv. fst kv \<noteq> k) s else (k, ZSet z') # s))))"
| "memory_store c s = (Inl ''ERR unknown command'', s)"

section \<open>What the scenarios assume of the store\<close>

text \<open>
  The store is a black box to the server. Two facts of its command reference are needed:
  after \<open>ZADD key score member\<close> succeeds, \<open>ZSCORE key member\<close> answers that score; and
  \<open>ZREM\<close> answers the number of the given members, each counted once, that were in the
  sorted set, a member being in the set when \<open>ZSCORE\<close> does not answer \<open>null\<close> for it.
\<close>

definition zadd_zscore_law :: "'s exec \<Rightarrow> bool" where
  "zadd_zscore_law exec \<longleftrightarrow>
     (\<forall>key score memb s r s'.
        exec (ZADD key [(score, memb)]) s = (Inr r, s')
        \<longrightarrow> fst (exec (ZSCORE key memb) s') = Inr (RNum score))"

definition zrem_law :: "'s exec \<Rightarrow> bool" where
  "zrem_law exec \<longleftrightarrow>
     (\<forall>key ms s r s'.
        exec (ZREM key ms) s = (Inr r, s')
        \<longrightarrow> r = RNum (Whole (int (length
                  (filter (\<lambda>m. fst (exec (ZSCORE key m) s) \<noteq> Inr RNull) (remdups ms))))))"

section \<open>Properties of the reconnection strategy\<close>

lemma reconnectStrategy_small:
  "i < 5 \<Longrightarrow> reconnectStrategy i = Inr (2 ^ i * 1000)"
proof -
  assume "i < 5"
  then have "i = 0 \<or> i = 1 \<or> i = 2 \<or> i = 3 \<or> i = 4" by arith
  then show ?thesis
    by (auto simp: reconnectStrategy_def MAX_RETRIES_def MIN_RETRY_DELAY_def MAX_RETRY_DELAY_def)
qed

lemma reconnectDelays_all: "reconnectDelays 0 = [1000, 2000, 4000, 8000, 16000]"
  by (simp add: reconnectDelays.simps reconnectStrategy_def MAX_RETRIES_def
      MIN_RETRY_DELAY_def MAX_RETRY_DELAY_def)

text \<open>
  C1. For retries \<open>0\<close> to \<open>4\<close> the strategy answers with the delay
  \<open>min (2^i * 1000) 30000\<close>, which is 1000, 2000, 4000, 8000 and 16000 ms; from 5 retries
  on it answers with an error; so exactly five attempts are scheduled and never a sixth.
\<close>

theorem reconnect_schedule:
  "(i \<le> 4 \<longrightarrow> reconnectStrategy i = Inr (min (2 ^ i * 1000) 30000))
   \<and> map reconnectStrategy [0, 1, 2, 3, 4] = [Inr 1000, Inr 2000, Inr 4000, Inr 8000, Inr 16000]
   \<and> (i \<ge> 5 \<longrightarrow> reconnectStrategy i = Inl (Error ''Max retries reached''))
   \<and> reconnectDelays 0 = [1000, 2000, 4000, 8000, 16000]
   \<and> length (reconnectDelays 0) = 5"
proof -
  have a: "i \<le> 4 \<longrightarrow> reconnectStrategy i = Inr (min (2 ^ i * 1000) 30000)"
    by (simp add: reconnectStrategy_def MAX_RETRIES_def MIN_RETRY_DELAY_def MAX_RETRY_DELAY_def)
  have b: "map reconnectStrategy [0, 1, 2, 3, 4]
           = [Inr 1000, Inr 2000, Inr 4000, Inr 8000, Inr 16000]"
    by (simp add: reconnectStrategy_small)
  have c: "i \<ge> 5 \<longrightarrow> reconnectStrategy i = Inl (Error ''Max retries reached'')"
    by (simp add: reconnectStrategy_def MAX_RETRIES_def)
  show ?thesis using a b c by (simp add: reconnectDelays_all)
qed

theorem reconnect_schedule_witness:
  "reconnectStrategy 3 = Inr (min (2 ^ 3 * 1000) 30000)
   \<and> reconnectStrategy 3 = Inr 8000
   \<and> reconnectStrategy 7 = Inl (Error ''Max retries reached'')"
  using reconnect_schedule [of 3] reconnect_schedule [of 7] by simp

section \<open>Properties of the shutdown\<close>




section \<open>Validation and dispatch\<close>

lemma after_validation_call:
  "(\<forall>r. after_validation (k r)) \<Longrightarrow> after_validation (fst (call exec c s k))"
  by (cases "exec c s") (auto simp: call_def split: sum.splits)

lemma handle_set_valid:
  "passed (parse SetArgumentsSchema args) \<Longrightarrow> after_validation (fst (handle_set exec args s))"
  by (cases "parse SetArgumentsSchema args")
     (simp_all add: handle_set_def with_args_def Let_def after_validation_call
        split: option.split variadic.split reply.split)

lemma handle_get_valid:
  "passed (parse GetArgumentsSchema args) \<Longrightarrow> after_validation (fst (handle_get exec args s))"
  by (cases "parse GetArgumentsSchema args")
     (simp_all add: handle_get_def with_args_def Let_def after_validation_call
        split: option.split variadic.split reply.split)

lemma handle_delete_valid:
  "passed (parse DeleteArgumentsSchema args) \<Longrightarrow> after_validation (fst (handle_delete exec args s))"
  by (cases "parse DeleteArgumentsSchema args")
     (simp_all add: handle_delete_def with_args_def Let_def after_validation_call
        split: option.split variadic.split reply.split)

lemma handle_list_valid:
  "passed (parse ListArgumentsSchema args) \<Longrightarrow> after_validation (fst (handle_list exec args s))"
  by (cases "parse ListArgumentsSchema args")
     (simp_all add: handle_list_def with_args_def Let_def after_validation_call
        split: option.split variadic.split reply.split)

lemma handle_hset_valid:
  "passed (parse HSetArgumentsSchema args) \<Longrightarrow> after_validation (fst (handle_hset exec args s))"
  by (cases "parse HSetArgumentsSchema args")
     (simp_all add: handle_hset_def with_args_def Let_def after_validation_call
        split: option.split variadic.split reply.split)

lemma handle_hget_valid:
  "passed (parse HGetArgumentsSchema args) \<Longrightarrow> after_validation (fst (handle_hget exec args s))"
  by (cases "parse HGetArgumentsSchema args")
     (simp_all add: handle_hget_def with_args_def Let_def after_validation_call
        split: option.split variadic.split reply.split)

lemma handle_hgetall_valid:
  "passed (parse HGetAllArgumentsSchema args) \<Longrightarrow> after_validation (fst (handle_hgetall exec args s))"
  by (cases "parse HGetAllArgumentsSchema args")
     (simp_all add: handle_hgetall_def with_args_def Let_def after_validation_call
        split: option.split variadic.split reply.split)

lemma handle_incr_valid:
  "passed (parse IncrArgumentsSchema args) \<Longrightarrow> after_validation (fst (handle_incr exec args s))"
  by (cases "parse IncrArgumentsSchema args")
     (simp_all add: handle_incr_def with_args_def Let_def after_validation_call
        split: option.split variadic.split reply.split)

lemma handle_expire_valid:
  "passed (parse ExpireArgumentsSchema args) \<Longrightarrow> after_validation (fst (handle_expire exec args s))"
  by (cases "parse ExpireArgumentsSchema args")
     (simp_all add: handle_expire_def with_args_def Let_def after_validation_call
        split: option.split variadic.split reply.split)

lemma handle_lpush_valid:
  "passed (parse LPushArgumentsSchema args) \<Longrightarrow> after_validation (fst (handle_lpush exec args s))"
  by (cases "parse LPushArgumentsSchema args")
     (simp_all add: handle_lpush_def with_args_def Let_def after_validation_call
        split: option.split variadic.split reply.split)

lemma handle_rpush_valid:
  "passed (parse RPushArgumentsSchema args) \<Longrightarrow> after_validation (fst (handle_rpush exec args s))"
  by (cases "parse RPushArgumentsSchema args")
     (simp_all add: handle_rpush_def with_args_def Let_def after_validation_call
        split: option.split variadic.split reply.split)

lemma handle_lpop_valid:
  "passed (parse LPopArgumentsSchema args) \<Longrightarrow> after_validation (fst (handle_lpop exec args s))"
  by (cases "parse LPopArgumentsSchema args")
     (simp_all add: handle_lpop_def with_args_def Let_def after_validation_call
        split: option.split variadic.split reply.split)

lemma handle_rpop_valid:
  "passed (parse RPopArgumentsSchema args) \<Longrightarrow> after_validation (fst (handle_rpop exec args s))"
  by (cases "parse RPopArgumentsSchema args")
     (simp_all add: handle_rpop_def with_args_def Let_def after_validation_call
        split: option.split variadic.split reply.split)

lemma handle_lrange_valid:
  "passed (parse LRangeArgumentsSchema args) \<Longrightarrow> after_validation (fst (handle_lrange exec args s))"
  by (cases "parse LRangeArgumentsSchema args")
     (simp_all add: handle_lrange_def with_args_def Let_def after_validation_call
        split: option.split variadic.split reply.split)

lemma handle_zadd_valid:
  "passed (parse ZAddArgumentsSchema args) \<Longrightarrow> after_validation (fst (handle_zadd exec args s))"
  by (cases "parse ZAddArgumentsSchema args")
     (simp_all add: handle_zadd_def with_args_def Let_def after_validation_call
        split: option.split variadic.split reply.split)

lemma handle_zrange_valid:
  "passed (parse ZRangeArgumentsSchema args) \<Longrightarrow> after_validation (fst (handle_zrange exec args s))"
  by (cases "parse ZRangeArgumentsSchema args")
     (simp_all add: handle_zrange_def with_args_def Let_def after_validation_call
        split: option.split variadic.split reply.split)

lemma handle_zrem_valid:
  "passed (parse ZRemArgumentsSchema args) \<Longrightarrow> after_validation (fst (handle_zrem exec args s))"
  by (cases "parse ZRemArgumentsSchema args")
     (simp_all add: handle_zrem_def with_args_def Let_def after_validation_call
        split: option.split variadic.split reply.split)

lemma handle_zscore_valid:
  "passed (parse ZScoreArgumentsSchema args) \<Longrightarrow> after_validation (fst (handle_zscore exec args s))"
  by (cases "parse ZScoreArgumentsSchema args")
     (simp_all add: handle_zscore_def with_args_def Let_def after_validation_call
        split: option.split variadic.split reply.split)

lemma handle_zrank_valid:
  "passed (parse ZRankArgumentsSchema args) \<Longrightarrow> after_validation (fst (handle_zrank exec args s))"
  by (cases "parse ZRankArgumentsSchema args")
     (simp_all add: handle_zrank_def with_args_def Let_def after_validation_call
        split: option.split variadic.split reply.split)

lemma handle_publish_valid:
  "passed (parse PublishArgumentsSchema args) \<Longrightarrow> after_validation (fst (handle_publish exec args s))"
  by (cases "parse PublishArgumentsSchema args")
     (simp_all add: handle_publish_def with_args_def Let_def after_validation_call
        split: option.split variadic.split reply.split)

lemma handle_pubsub_channels_valid:
  "passed (parse PubSubChannelsArgumentsSchema args) \<Longrightarrow> after_validation (fst (handle_pubsub_channels exec args s))"
  by (cases "parse PubSubChannelsArgumentsSchema args")
     (simp_all add: handle_pubsub_channels_def with_args_def Let_def after_validation_call
        split: option.split variadic.split reply.split)

lemmas handler_valid =
  handle_set_valid handle_get_valid handle_delete_valid handle_list_valid
  handle_hset_valid handle_hget_valid handle_hgetall_valid handle_incr_valid
  handle_expire_valid handle_lpush_valid handle_rpush_valid handle_lpop_valid
  handle_rpop_valid handle_lrange_valid handle_zadd_valid handle_zrange_valid
  handle_zrem_valid handle_zscore_valid handle_zrank_valid handle_publish_valid
  handle_pubsub_channels_valid

lemma dispatch_set:
  "dispatch exec ''set'' args s = handle_set exec args s"
  "schema_of ''set'' = Some SetArgumentsSchema"
  by (simp_all add: dispatch_def schema_of_def)

lemma dispatch_get:
  "dispatch exec ''get'' args s = handle_get exec args s"
  "schema_of ''get'' = Some GetArgumentsSchema"
  by (simp_all add: dispatch_def schema_of_def)

lemma dispatch_delete:
  "dispatch exec ''delete'' args s = handle_delete exec args s"
  "schema_of ''delete'' = Some DeleteArgumentsSchema"
  by (simp_all add: dispatch_def schema_of_def)

lemma dispatch_list:
  "dispatch exec ''list'' args s = handle_list exec args s"
  "schema_of ''list'' = Some ListArgumentsSchema"
  by (simp_all add: dispatch_def schema_of_def)

lemma dispatch_hset:
  "dispatch exec ''hset'' args s = handle_hset exec args s"
  "schema_of ''hset'' = Some HSetArgumentsSchema"
  by (simp_all add: dispatch_def schema_of_def)

lemma dispatch_hget:
  "dispatch exec ''hget'' args s = handle_hget exec args s"
  "schema_of ''hget'' = Some HGetArgumentsSchema"
  by (simp_all add: dispatch_def schema_of_def)

lemma dispatch_hgetall:
  "dispatch exec ''hgetall'' args s = handle_hgetall exec args s"
  "schema_of ''hgetall'' = Some HGetAllArgumentsSchema"
  by (simp_all add: dispatch_def schema_of_def)

lemma dispatch_incr:
  "dispatch exec ''incr'' args s = handle_incr exec args s"
  "schema_of ''incr'' = Some IncrArgumentsSchema"
  by (simp_all add: dispatch_def schema_of_def)

lemma dispatch_expire:
  "dispatch exec ''expire'' args s = handle_expire exec args s"
  "schema_of ''expire'' = Some ExpireArgumentsSchema"
  by (simp_all add: dispatch_def schema_of_def)

lemma dispatch_lpush:
  "dispatch exec ''lpush'' args s = handle_lpush exec args s"
  "schema_of ''lpush'' = Some LPushArgumentsSchema"
  by (simp_all add: dispatch_def schema_of_def)

lemma dispatch_rpush:
  "dispatch exec ''rpush'' args s = handle_rpush exec args s"
  "schema_of ''rpush'' = Some RPushArgumentsSchema"
  by (simp_all add: dispatch_def schema_of_def)

lemma dispatch_lpop:
  "dispatch exec ''lpop'' args s = handle_lpop exec args s"
  "schema_of ''lpop'' = Some LPopArgumentsSchema"
  by (simp_all add: dispatch_def schema_of_def)

lemma dispatch_rpop:
  "dispatch exec ''rpop'' args s = handle_rpop exec args s"
  "schema_of ''rpop'' = Some RPopArgumentsSchema"
  by (simp_all add: dispatch_def schema_of_def)

lemma dispatch_lrange:
  "dispatch exec ''lrange'' args s = handle_lrange exec args s"
  "schema_of ''lrange'' = Some LRangeArgumentsSchema"
  by (simp_all add: dispatch_def schema_of_def)

lemma dispatch_zadd:
  "dispatch exec ''zadd'' args s = handle_zadd exec args s"
  "schema_of ''zadd'' = Some ZAddArgumentsSchema"
  by (simp_all add: dispatch_def schema_of_def)

lemma dispatch_zrange:
  "dispatch exec ''zrange'' args s = handle_zrange exec args s"
  "schema_of ''zrange'' = Some ZRangeArgumentsSchema"
  by (simp_all add: dispatch_def schema_of_def)

lemma dispatch_zrem:
  "dispatch exec ''zrem'' args s = handle_zrem exec args s"
  "schema_of ''zrem'' = Some ZRemArgumentsSchema"
  by (simp_all add: dispatch_def schema_of_def)

lemma dispatch_zscore:
  "dispatch exec ''zscore'' args s = handle_zscore exec args s"
  "schema_of ''zscore'' = Some ZScoreArgumentsSchema"
  by (simp_all add: dispatch_def schema_of_def)

lemma dispatch_zrank:
  "dispatch exec ''zrank'' args s = handle_zrank exec args s"
  "schema_of ''zrank'' = Some ZRankArgumentsSchema"
  by (simp_all add: dispatch_def schema_of_def)

lemma dispatch_publish:
  "dispatch exec ''publish'' args s = handle_publish exec args s"
  "schema_of ''publish'' = Some PublishArgumentsSchema"
  by (simp_all add: dispatch_def schema_of_def)

lemma dispatch_pubsub_channels:
  "dispatch exec ''pubsub_channels'' args s = handle_pubsub_channels exec args s"
  "schema_of ''pubsub_channels'' = Some PubSubChannelsArgumentsSchema"
  by (simp_all add: dispatch_def schema_of_def)

lemma tool_names_eq:
  "tool_names = [''set'', ''get'', ''delete'', ''list'', ''hset'', ''hget'', ''hgetall'', ''incr'',
    ''expire'', ''lpush'', ''rpush'', ''lpop'', ''rpop'', ''lrange'', ''zadd'', ''zrange'', ''zrem'',
    ''zscore'', ''zrank'', ''publish'', ''pubsub_channels'']"
  by (simp add: tool_names_def tools_def)

lemma schema_of_known: "schema_of name \<noteq> None \<longleftrightarrow> name \<in> set tool_names"
  unfolding tool_names_eq schema_of_def by simp

lemma dispatch_unknown:
  "name \<notin> set tool_names \<Longrightarrow> dispatch exec name args s = (Inl (Error (''Unknown tool: '' @ name)), s)"
  unfolding tool_names_eq dispatch_def by simp

lemmas dispatch_tool =
  dispatch_set dispatch_get dispatch_delete dispatch_list dispatch_hset
  dispatch_hget dispatch_hgetall dispatch_incr dispatch_expire dispatch_lpush
  dispatch_rpush dispatch_lpop dispatch_rpop dispatch_lrange dispatch_zadd
  dispatch_zrange dispatch_zrem dispatch_zscore dispatch_zrank dispatch_publish
  dispatch_pubsub_channels

lemmas handler_defs =
  handle_set_def handle_get_def handle_delete_def handle_list_def handle_hset_def
  handle_hget_def handle_hgetall_def handle_incr_def handle_expire_def handle_lpush_def
  handle_rpush_def handle_lpop_def handle_rpop_def handle_lrange_def handle_zadd_def
  handle_zrange_def handle_zrem_def handle_zscore_def handle_zrank_def handle_publish_def
  handle_pubsub_channels_def

lemma known_tool_cases:
  assumes "schema_of name = Some S"
  shows "name \<in> set tool_names"
  using assms schema_of_known [of name] by simp

lemma dispatch_invalid:
  assumes "schema_of name = Some S" and "parse S args = Inl iss"
  shows "dispatch exec name args s = (Inl (ZodError iss), s)"
proof -
  have "name \<in> set tool_names" using assms(1) by (rule known_tool_cases)
  then show ?thesis
    unfolding tool_names_eq set_simps insert_iff empty_iff
    using assms by (elim disjE FalseE) (simp_all add: dispatch_tool handler_defs with_args_def)
qed

lemma dispatch_valid:
  assumes "schema_of name = Some S" and "passed (parse S args)"
  shows "after_validation (fst (dispatch exec name args s))"
proof -
  have "name \<in> set tool_names" using assms(1) by (rule known_tool_cases)
  then show ?thesis
    unfolding tool_names_eq set_simps insert_iff empty_iff
    using assms by (elim disjE FalseE) (simp_all add: dispatch_tool handler_valid)
qed

lemma callTool_invalid:
  assumes "schema_of name = Some S" and "parse S args = Inl iss"
  shows "callTool exec name args s = (Inl (InvalidArguments iss), s)"
  by (simp add: callTool_def dispatch_invalid [OF assms])

lemma callTool_valid:
  assumes "schema_of name = Some S" and "passed (parse S args)"
  shows "callTool exec name args s = dispatch exec name args s"
    and "after_validation (fst (callTool exec name args s))"
proof -
  have a: "after_validation (fst (dispatch exec name args s))"
    using assms by (rule dispatch_valid)
  then show "callTool exec name args s = dispatch exec name args s"
    by (cases "dispatch exec name args s")
       (auto simp: callTool_def split: sum.splits error.splits)
  with a show "after_validation (fst (callTool exec name args s))" by simp
qed

lemma callTool_unknown:
  assumes "schema_of name = None"
  shows "callTool exec name args s = (Inl (Error (''Unknown tool: '' @ name)), s)"
proof -
  have "name \<notin> set tool_names" using assms schema_of_known [of name] by simp
  then show ?thesis by (simp add: callTool_def dispatch_unknown)
qed

lemma zparse_issues:
  "zparse t p v = Inl iss \<Longrightarrow> iss \<noteq> [] \<and> (\<forall>i \<in> set iss. take (length p) (path i) = p)"
proof (induction t arbitrary: p v iss)
  case (ZArray t)
  show ?case
  proof (cases v)
    case None
    with ZArray.prems show ?thesis by (auto simp: invalid_type_def)
  next
    case (Some x)
    show ?thesis
    proof (cases x)
      case (JArr xs)
      define rs where "rs = map (\<lambda>ix. zparse t (p @ [dec (fst ix)]) (Some (snd ix))) (enumerate 0 xs)"
      from ZArray.prems Some JArr have np: "\<not> list_all passed rs" and iss: "iss = concat (map issues_of rs)"
        by (auto simp: Let_def rs_def split: if_splits)
      have each: "r \<in> set rs \<Longrightarrow> r = Inl js \<Longrightarrow> js \<noteq> [] \<and> (\<forall>i \<in> set js. take (length p) (path i) = p)" for r js
      proof -
        assume "r \<in> set rs" and r: "r = Inl js"
        then obtain ix where "zparse t (p @ [dec (fst ix)]) (Some (snd ix)) = Inl js"
          by (auto simp: rs_def)
        from ZArray.IH [OF this] have "js \<noteq> []"
          and "\<forall>i \<in> set js. take (Suc (length p)) (path i) = p @ [dec (fst ix)]" by auto
        moreover have "take (Suc (length p)) q = p @ [d] \<Longrightarrow> take (length p) q = p" for q d
        proof -
          assume q: "take (Suc (length p)) q = p @ [d]"
          have "take (length p) q = take (length p) (take (Suc (length p)) q)" by simp
          also have "\<dots> = p" by (simp only: q) simp
          finally show ?thesis .
        qed
        ultimately show ?thesis by blast
      qed
      from np obtain r where r: "r \<in> set rs" "\<not> passed r" by (auto simp: list_all_iff)
      obtain js where "r = Inl js" using r(2) by (cases r) auto
      with each r have "js \<noteq> []" "js = issues_of r" by auto
      with r iss have "iss \<noteq> []" by auto
      moreover have "\<forall>i \<in> set iss. take (length p) (path i) = p"
      proof
        fix i assume "i \<in> set iss"
        then obtain r where rr: "r \<in> set rs" "i \<in> set (issues_of r)" using iss by auto
        show "take (length p) (path i) = p"
        proof (cases r)
          case (Inl js)
          with rr each [of r js] show ?thesis by simp
        next
          case (Inr x)
          with rr show ?thesis by simp
        qed
      qed
      ultimately show ?thesis by simp
    qed (use ZArray.prems Some in \<open>auto simp: invalid_type_def\<close>)
  qed
next
  case (ZOr a b)
  then show ?case by (auto split: sum.splits)
next
  case (ZOptional t)
  then show ?case by (auto split: if_splits)
next
  case (ZDefault t d)
  then show ?case by (auto split: if_splits)
qed (auto simp: invalid_type_def split: option.splits json.splits)

lemma passed_or:
  "passed (case x of Inr r \<Rightarrow> Inr r | Inl _ \<Rightarrow> (case y of Inr r \<Rightarrow> Inr r | Inl _ \<Rightarrow> Inl z))
   \<longleftrightarrow> passed x \<or> passed y"
  by (cases x; cases y) simp_all

lemma zparse_Some: "passed (zparse t p (Some v)) \<longleftrightarrow> has_type v t"
proof (induction t arbitrary: p v)
  case (ZArray t)
  show ?case
  proof (cases v)
    case (JArr xs)
    have "list_all passed (map (\<lambda>ix. zparse t (p @ [dec (fst ix)]) (Some (snd ix))) (enumerate n xs))
          \<longleftrightarrow> list_all (\<lambda>x. has_type x t) xs" for n
      by (induction xs arbitrary: n) (simp_all add: ZArray.IH)
    then show ?thesis using JArr by (simp add: Let_def)
  qed (simp_all add: invalid_type_def)
qed (simp_all add: invalid_type_def passed_or split: json.splits)

lemma zparse_None: "passed (zparse t p None) \<longleftrightarrow> may_be_absent t"
  by (induction t arbitrary: p) (simp_all add: invalid_type_def zparse_Some passed_or)

lemma zparse_violated:
  "passed (zparse (snd kt) p (map_of obj (fst kt))) \<longleftrightarrow> \<not> violated obj kt"
  by (cases "map_of obj (fst kt)") (simp_all add: violated_def zparse_Some zparse_None)

lemma zparse_Some_id: "zparse t p (Some v) = Inr r \<Longrightarrow> r = Some v"
  by (induction t arbitrary: p v r)
     (auto simp: Let_def split: json.splits sum.splits if_splits option.splits)

lemma zparse_has_type: "has_type v t \<Longrightarrow> zparse t p (Some v) = Inr (Some v)"
  using zparse_Some [of t p v] zparse_Some_id [of t p v] by (cases "zparse t p (Some v)") auto

lemma parse_passed:
  "passed (parse shape args) \<longleftrightarrow>
     (\<exists>obj. args = Some obj \<and> (\<forall>kt \<in> set shape. \<not> violated obj kt))"
  by (cases args) (auto simp: parse_def Let_def list_all_iff zparse_violated)

lemma parse_undefined: "parse shape None = Inl [\<lparr>path = [], message = ''Required''\<rparr>]"
  by (simp add: parse_def)

lemma parse_issues:
  assumes "parse shape (Some obj) = Inl iss"
  shows "iss \<noteq> [] \<and> (\<forall>i \<in> set iss. \<exists>kt \<in> set shape. violated obj kt \<and> take 1 (path i) = [fst kt])"
proof -
  define rs where "rs = map (\<lambda>kt. zparse (snd kt) [fst kt] (map_of obj (fst kt))) shape"
  from assms have np: "\<not> list_all passed rs" and iss: "iss = concat (map issues_of rs)"
    by (auto simp: parse_def Let_def rs_def split: if_splits)
  from np obtain kt where kt: "kt \<in> set shape" "\<not> passed (zparse (snd kt) [fst kt] (map_of obj (fst kt)))"
    by (auto simp: list_all_iff rs_def)
  then obtain js where js: "zparse (snd kt) [fst kt] (map_of obj (fst kt)) = Inl js"
    by (cases "zparse (snd kt) [fst kt] (map_of obj (fst kt))") auto
  from zparse_issues [OF js] have "js \<noteq> []" by simp
  moreover have "set js \<subseteq> set iss" using kt(1) js by (force simp: iss rs_def)
  ultimately have "iss \<noteq> []" by auto
  moreover have "\<exists>kt \<in> set shape. violated obj kt \<and> take 1 (path i) = [fst kt]" if "i \<in> set iss" for i
  proof -
    from that obtain kt where k: "kt \<in> set shape"
        and i: "i \<in> set (issues_of (zparse (snd kt) [fst kt] (map_of obj (fst kt))))"
      by (auto simp: iss rs_def)
    show ?thesis
    proof (cases "zparse (snd kt) [fst kt] (map_of obj (fst kt))")
      case (Inl ks)
      with zparse_issues [OF Inl] i have "take 1 (path i) = [fst kt]" by simp
      moreover have "violated obj kt" using Inl zparse_violated [of kt "[fst kt]" obj] by simp
      ultimately show ?thesis using k by blast
    next
      case (Inr x)
      with i show ?thesis by simp
    qed
  qed
  ultimately show ?thesis by blast
qed

lemma parse_extra_field:
  assumes "k \<notin> fst ` set shape"
  shows "parse shape (Some ((k, x) # obj)) = parse shape (Some obj)"
proof -
  have "map (\<lambda>kt. zparse (snd kt) [fst kt] (map_of ((k, x) # obj) (fst kt))) shape
        = map (\<lambda>kt. zparse (snd kt) [fst kt] (map_of obj (fst kt))) shape"
    using assms by (intro map_cong) auto
  then show ?thesis by (simp only: parse_def option.case)
qed

lemma dispatch_parse_cong:
  assumes "schema_of name = Some S" and "parse S args = parse S args'"
  shows "dispatch exec name args s = dispatch exec name args' s"
proof -
  have "name \<in> set tool_names" using assms(1) by (rule known_tool_cases)
  then show ?thesis
    unfolding tool_names_eq set_simps insert_iff empty_iff
    using assms by (elim disjE FalseE) (simp_all add: dispatch_tool handler_defs with_args_def)
qed

lemma callTool_parse_cong:
  assumes "schema_of name = Some S" and "parse S args = parse S args'"
  shows "callTool exec name args s = callTool exec name args' s"
  by (simp add: callTool_def dispatch_parse_cong [OF assms])

text \<open>
  How calls are rejected. A call is rejected with \<open>Invalid arguments\<close> exactly when the
  tool is known and either the arguments object is missing, or a field of the tool's
  schema is required and absent, or present with a value that fails its declared type. A
  rejected call leaves the store as it was and sends it no command. For an arguments
  object, each issue of the error names a violated field at the head of its path. A key
  the schema does not name changes nothing. An empty key, a zero score and negative range
  indices are accepted.
\<close>

lemma invalid_arguments_iff:
  "((\<exists>iss. fst (callTool exec name args s) = Inl (InvalidArguments iss)) \<longleftrightarrow>
      (\<exists>S. schema_of name = Some S
           \<and> (args = None \<or> (\<exists>obj. args = Some obj \<and> (\<exists>kt \<in> set S. violated obj kt)))))
   \<and> ((\<exists>iss. fst (callTool (logging exec) name args (s, log)) = Inl (InvalidArguments iss))
        \<longrightarrow> snd (callTool (logging exec) name args (s, log)) = (s, log))
   \<and> (\<forall>S obj. schema_of name = Some S \<and> args = Some obj \<and> (\<exists>kt \<in> set S. violated obj kt)
        \<longrightarrow> (\<exists>iss. callTool exec name args s = (Inl (InvalidArguments iss), s) \<and> iss \<noteq> []
              \<and> (\<forall>i \<in> set iss. \<exists>kt \<in> set S. violated obj kt \<and> take 1 (path i) = [fst kt])))
   \<and> (\<forall>S obj k x. schema_of name = Some S \<and> args = Some obj \<and> k \<notin> fst ` set S
        \<longrightarrow> callTool exec name (Some ((k, x) # obj)) s = callTool exec name args s)
   \<and> passed (parse GetArgumentsSchema (Some [(''key'', JStr [])]))
   \<and> passed (parse ZAddArgumentsSchema
        (Some [(''key'', JStr key), (''score'', JNum (Whole 0)), (''member'', JStr memb)]))
   \<and> passed (parse LRangeArgumentsSchema
        (Some [(''key'', JStr key), (''start'', JNum (Whole (- 3))), (''stop'', JNum (Whole (- 1)))]))"
proof -
  have iff: "(\<exists>iss. fst (callTool ex name args st) = Inl (InvalidArguments iss)) \<longleftrightarrow>
      (\<exists>S. schema_of name = Some S
           \<and> (args = None \<or> (\<exists>obj. args = Some obj \<and> (\<exists>kt \<in> set S. violated obj kt))))"
    (is "?L \<longleftrightarrow> ?R") for ex :: "'t exec" and st
  proof (cases "schema_of name")
    case None
    then show ?thesis
      by (simp add: callTool_unknown InvalidArguments_def)
  next
    case (Some S)
    show ?thesis
    proof (cases "parse S args")
      case (Inl iss)
      then have "\<not> passed (parse S args)" by simp
      then have "?R" using Some by (cases args) (auto simp: parse_passed)
      moreover have "?L" using callTool_invalid [OF Some Inl, of ex st] by auto
      ultimately show ?thesis by simp
    next
      case (Inr v)
      then have p: "passed (parse S args)" by simp
      then have "\<not> ?R" using Some by (auto simp: parse_passed)
      moreover have "\<not> ?L"
        using callTool_valid(2) [OF Some p, of ex st]
        by (auto simp: InvalidArguments_def)
      ultimately show ?thesis by simp
    qed
  qed
  have unchanged: "(\<exists>iss. fst (callTool ex name args st) = Inl (InvalidArguments iss))
      \<longrightarrow> snd (callTool ex name args st) = st" for ex :: "'t exec" and st
  proof (cases "schema_of name")
    case None
    then show ?thesis by (simp add: callTool_unknown)
  next
    case (Some S)
    show ?thesis
    proof (cases "parse S args")
      case (Inl iss)
      then show ?thesis using callTool_invalid [OF Some Inl, of ex st] by simp
    next
      case (Inr v)
      then have p: "passed (parse S args)" by simp
      show ?thesis
        using callTool_valid(2) [OF Some p, of ex st]
        by (auto simp: InvalidArguments_def)
    qed
  qed
  have named: "\<forall>S obj. schema_of name = Some S \<and> args = Some obj \<and> (\<exists>kt \<in> set S. violated obj kt)
        \<longrightarrow> (\<exists>iss. callTool exec name args s = (Inl (InvalidArguments iss), s) \<and> iss \<noteq> []
              \<and> (\<forall>i \<in> set iss. \<exists>kt \<in> set S. violated obj kt \<and> take 1 (path i) = [fst kt]))"
  proof (intro allI impI, elim conjE)
    fix S obj
    assume S: "schema_of name = Some S" and a: "args = Some obj" and v: "\<exists>kt \<in> set S. violated obj kt"
    from v a have "\<not> passed (parse S args)" by (auto simp: parse_passed)
    then obtain iss where iss: "parse S args = Inl iss" by (cases "parse S args") auto
    from parse_issues [of S obj iss] iss a callTool_invalid [OF S iss, of exec s]
    show "\<exists>iss. callTool exec name args s = (Inl (InvalidArguments iss), s) \<and> iss \<noteq> []
              \<and> (\<forall>i \<in> set iss. \<exists>kt \<in> set S. violated obj kt \<and> take 1 (path i) = [fst kt])"
      by blast
  qed
  have extra: "\<forall>S obj k x. schema_of name = Some S \<and> args = Some obj \<and> k \<notin> fst ` set S
        \<longrightarrow> callTool exec name (Some ((k, x) # obj)) s = callTool exec name args s"
    using callTool_parse_cong parse_extra_field by metis
  have edge: "passed (parse GetArgumentsSchema (Some [(''key'', JStr [])]))"
    "passed (parse ZAddArgumentsSchema
        (Some [(''key'', JStr key), (''score'', JNum (Whole 0)), (''member'', JStr memb)]))"
    "passed (parse LRangeArgumentsSchema
        (Some [(''key'', JStr key), (''start'', JNum (Whole (- 3))), (''stop'', JNum (Whole (- 1)))]))"
    by (simp_all add: parse_passed violated_def GetArgumentsSchema_def ZAddArgumentsSchema_def
        LRangeArgumentsSchema_def)
  from iff [of exec s] unchanged [of "logging exec" "(s, log)"] named extra edge
  show ?thesis by blast
qed


text \<open>
  For a call that carries an arguments object the rejection is therefore exactly the one
  C3 describes.
\<close>

lemma invalid_arguments_with_object:
  "(\<exists>iss. fst (callTool exec name (Some obj) s) = Inl (InvalidArguments iss)) \<longleftrightarrow>
     (\<exists>S. schema_of name = Some S \<and> (\<exists>kt \<in> set S. violated obj kt))"
  using invalid_arguments_iff [of exec name "Some obj" s] by simp

text \<open>A call of a known tool without arguments is rejected, whatever the tool's schema.\<close>

lemma invalid_arguments_undefined:
  assumes "schema_of name = Some S"
  shows "callTool exec name None s
         = (Inl (InvalidArguments [\<lparr>path = [], message = ''Required''\<rparr>]), s)"
  using assms by (rule callTool_invalid) (rule parse_undefined)

text \<open>
  C3. The code departs from the claim on a call that carries no arguments, which the
  protocol allows. The one field of the \<open>list\<close> schema has a default, and that of
  \<open>pubsub_channels\<close> is optional: with the empty object the default is applied and the
  validation passes, and read as an object without fields the missing arguments leave no
  required field absent and no value ill-typed. Yet without arguments both calls are
  rejected with \<open>Invalid arguments: : Required\<close>, before any command is sent.
\<close>

theorem list_without_arguments_rejected:
  "schema_of ''list'' = Some ListArgumentsSchema
   \<and> \<not> list_ex (violated []) ListArgumentsSchema
   \<and> parse ListArgumentsSchema (Some []) = Inr [(''pattern'', Some (JStr ''*''))]
   \<and> callTool (logging null_store) ''list'' None ((), [])
       = (Inl (Error ''Invalid arguments: : Required''), ((), []))
   \<and> fst (callTool null_store ''list'' None ())
       = Inl (InvalidArguments [\<lparr>path = [], message = ''Required''\<rparr>])
   \<and> schema_of ''pubsub_channels'' = Some PubSubChannelsArgumentsSchema
   \<and> \<not> list_ex (violated []) PubSubChannelsArgumentsSchema
   \<and> parse PubSubChannelsArgumentsSchema (Some []) = Inr [(''pattern'', None)]
   \<and> callTool (logging null_store) ''pubsub_channels'' None ((), [])
       = (Inl (Error ''Invalid arguments: : Required''), ((), []))"
  by (simp add: callTool_def dispatch_def handle_list_def handle_pubsub_channels_def
      with_args_def parse_def InvalidArguments_def issue_text_def schema_of_def
      ListArgumentsSchema_def PubSubChannelsArgumentsSchema_def violated_def)

section \<open>The listing against the validation\<close>

lemmas schema_defs =
  SetArgumentsSchema_def GetArgumentsSchema_def DeleteArgumentsSchema_def ListArgumentsSchema_def
  HSetArgumentsSchema_def HGetArgumentsSchema_def HGetAllArgumentsSchema_def IncrArgumentsSchema_def
  ExpireArgumentsSchema_def LPushArgumentsSchema_def RPushArgumentsSchema_def LPopArgumentsSchema_def
  RPopArgumentsSchema_def LRangeArgumentsSchema_def ZAddArgumentsSchema_def ZRangeArgumentsSchema_def
  ZRemArgumentsSchema_def ZScoreArgumentsSchema_def ZRankArgumentsSchema_def PublishArgumentsSchema_def
  PubSubChannelsArgumentsSchema_def

lemma conforms_string: "conforms v (TypeDescriptor ''string'') \<longleftrightarrow> has_type v ZString"
  by (cases v) simp_all

lemma conforms_number: "conforms v (TypeDescriptor ''number'') \<longleftrightarrow> has_type v ZNumber"
  by (cases v) simp_all

lemma conforms_string_or_array:
  "conforms v string_or_array \<longleftrightarrow> has_type v (ZOr ZString (ZArray ZString))"
proof (cases v)
  case (JArr xs)
  have "list_all (\<lambda>x. json_type x = ''string'') xs = list_all (\<lambda>x. has_type x ZString) xs"
    using conforms_string by (simp add: list_all_iff)
  then show ?thesis using JArr by (simp add: string_or_array_def)
qed (simp_all add: string_or_array_def)

lemma tool_names_distinct: "distinct (map tool_name tools)"
  by (simp add: tools_def)


lemma listing_set:
  "entry_of ''set'' = Some (tools ! 0)"
  "advertised_accepts (tools ! 0) obj \<longleftrightarrow> passed (parse SetArgumentsSchema (Some obj))"
  by (simp_all add: entry_of_def tools_def advertised_accepts_def parse_passed violated_def SetArgumentsSchema_def
        conforms_string conforms_number conforms_string_or_array
        del: conforms.simps split: option.split)

lemma listing_get:
  "entry_of ''get'' = Some (tools ! Suc 0)"
  "advertised_accepts (tools ! Suc 0) obj \<longleftrightarrow> passed (parse GetArgumentsSchema (Some obj))"
  by (simp_all add: entry_of_def tools_def advertised_accepts_def parse_passed violated_def GetArgumentsSchema_def
        conforms_string conforms_number conforms_string_or_array
        del: conforms.simps split: option.split)

lemma listing_delete:
  "entry_of ''delete'' = Some (tools ! 2)"
  "advertised_accepts (tools ! 2) obj \<longleftrightarrow> passed (parse DeleteArgumentsSchema (Some obj))"
  by (simp_all add: entry_of_def tools_def advertised_accepts_def parse_passed violated_def DeleteArgumentsSchema_def
        conforms_string conforms_number conforms_string_or_array
        del: conforms.simps split: option.split)

lemma listing_list:
  "entry_of ''list'' = Some (tools ! 3)"
  "advertised_accepts (tools ! 3) obj \<longleftrightarrow> passed (parse ListArgumentsSchema (Some obj))"
  by (simp_all add: entry_of_def tools_def advertised_accepts_def parse_passed violated_def ListArgumentsSchema_def
        conforms_string conforms_number conforms_string_or_array
        del: conforms.simps split: option.split)

lemma listing_hset:
  "entry_of ''hset'' = Some (tools ! 4)"
  "advertised_accepts (tools ! 4) obj \<longleftrightarrow> passed (parse HSetArgumentsSchema (Some obj))"
  by (simp_all add: entry_of_def tools_def advertised_accepts_def parse_passed violated_def HSetArgumentsSchema_def
        conforms_string conforms_number conforms_string_or_array
        del: conforms.simps split: option.split)

lemma listing_hget:
  "entry_of ''hget'' = Some (tools ! 5)"
  "advertised_accepts (tools ! 5) obj \<longleftrightarrow> passed (parse HGetArgumentsSchema (Some obj))"
  by (simp_all add: entry_of_def tools_def advertised_accepts_def parse_passed violated_def HGetArgumentsSchema_def
        conforms_string conforms_number conforms_string_or_array
        del: conforms.simps split: option.split)

lemma listing_hgetall:
  "entry_of ''hgetall'' = Some (tools ! 6)"
  "advertised_accepts (tools ! 6) obj \<longleftrightarrow> passed (parse HGetAllArgumentsSchema (Some obj))"
  by (simp_all add: entry_of_def tools_def advertised_accepts_def parse_passed violated_def HGetAllArgumentsSchema_def
        conforms_string conforms_number conforms_string_or_array
        del: conforms.simps split: option.split)

lemma listing_incr:
  "entry_of ''incr'' = Some (tools ! 7)"
  "advertised_accepts (tools ! 7) obj \<longleftrightarrow> passed (parse IncrArgumentsSchema (Some obj))"
  by (simp_all add: entry_of_def tools_def advertised_accepts_def parse_passed violated_def IncrArgumentsSchema_def
        conforms_string conforms_number conforms_string_or_array
        del: conforms.simps split: option.split)

lemma listing_expire:
  "entry_of ''expire'' = Some (tools ! 8)"
  "advertised_accepts (tools ! 8) obj \<longleftrightarrow> passed (parse ExpireArgumentsSchema (Some obj))"
  by (simp_all add: entry_of_def tools_def advertised_accepts_def parse_passed violated_def ExpireArgumentsSchema_def
        conforms_string conforms_number conforms_string_or_array
        del: conforms.simps split: option.split)

lemma listing_lpush:
  "entry_of ''lpush'' = Some (tools ! 9)"
  "advertised_accepts (tools ! 9) obj \<longleftrightarrow> passed (parse LPushArgumentsSchema (Some obj))"
  by (simp_all add: entry_of_def tools_def advertised_accepts_def parse_passed violated_def LPushArgumentsSchema_def
        conforms_string conforms_number conforms_string_or_array
        del: conforms.simps split: option.split)

lemma listing_rpush:
  "entry_of ''rpush'' = Some (tools ! 10)"
  "advertised_accepts (tools ! 10) obj \<longleftrightarrow> passed (parse RPushArgumentsSchema (Some obj))"
  by (simp_all add: entry_of_def tools_def advertised_accepts_def parse_passed violated_def RPushArgumentsSchema_def
        conforms_string conforms_number conforms_string_or_array
        del: conforms.simps split: option.split)

lemma listing_lpop:
  "entry_of ''lpop'' = Some (tools ! 11)"
  "advertised_accepts (tools ! 11) obj \<longleftrightarrow> passed (parse LPopArgumentsSchema (Some obj))"
  by (simp_all add: entry_of_def tools_def advertised_accepts_def parse_passed violated_def LPopArgumentsSchema_def
        conforms_string conforms_number conforms_string_or_array
        del: conforms.simps split: option.split)

lemma listing_rpop:
  "entry_of ''rpop'' = Some (tools ! 12)"
  "advertised_accepts (tools ! 12) obj \<longleftrightarrow> passed (parse RPopArgumentsSchema (Some obj))"
  by (simp_all add: entry_of_def tools_def advertised_accepts_def parse_passed violated_def RPopArgumentsSchema_def
        conforms_string conforms_number conforms_string_or_array
        del: conforms.simps split: option.split)

lemma listing_lrange:
  "entry_of ''lrange'' = Some (tools ! 13)"
  "advertised_accepts (tools ! 13) obj \<longleftrightarrow> passed (parse LRangeArgumentsSchema (Some obj))"
  by (simp_all add: entry_of_def tools_def advertised_accepts_def parse_passed violated_def LRangeArgumentsSchema_def
        conforms_string conforms_number conforms_string_or_array
        del: conforms.simps split: option.split)

lemma listing_publish:
  "entry_of ''publish'' = Some (tools ! 19)"
  "advertised_accepts (tools ! 19) obj \<longleftrightarrow> passed (parse PublishArgumentsSchema (Some obj))"
  by (simp_all add: entry_of_def tools_def advertised_accepts_def parse_passed violated_def PublishArgumentsSchema_def
        conforms_string conforms_number conforms_string_or_array
        del: conforms.simps split: option.split)

lemma listing_pubsub_channels:
  "entry_of ''pubsub_channels'' = Some (tools ! 20)"
  "advertised_accepts (tools ! 20) obj \<longleftrightarrow> passed (parse PubSubChannelsArgumentsSchema (Some obj))"
  by (simp_all add: entry_of_def tools_def advertised_accepts_def parse_passed violated_def PubSubChannelsArgumentsSchema_def
        conforms_string conforms_number conforms_string_or_array
        del: conforms.simps split: option.split)

lemma find_distinct:
  "distinct (map f xs) \<Longrightarrow> x \<in> set xs \<Longrightarrow> find (\<lambda>e. f e = f x) xs = Some x"
  by (induction xs) (auto simp: image_iff)

lemma entry_of_entry: "entry \<in> set tools \<Longrightarrow> entry_of (tool_name entry) = Some entry"
  unfolding entry_of_def by (rule find_distinct [OF tool_names_distinct])

text \<open>
  For the sixteen entries outside the sorted-set group, an arguments object satisfies the
  advertised schema exactly when the dispatcher's validation passes.
\<close>

lemma listing_matches_validation:
  assumes "entry \<in> set tools"
    and "tool_name entry \<notin> {''zadd'', ''zrange'', ''zrem'', ''zscore'', ''zrank''}"
    and "schema_of (tool_name entry) = Some S"
  shows "advertised_accepts entry obj \<longleftrightarrow> passed (parse S (Some obj))"
proof -
  have e: "entry_of (tool_name entry) = Some entry"
    using assms(1) by (rule entry_of_entry)
  have "tool_name entry \<in> set tool_names"
    using assms(3) by (rule known_tool_cases)
  then show ?thesis
    unfolding tool_names_eq set_simps insert_iff empty_iff
    using assms(2,3) e
    by (elim disjE FalseE)
       (auto simp: dispatch_tool listing_set listing_get listing_delete
          listing_list listing_hset listing_hget listing_hgetall listing_incr listing_expire
          listing_lpush listing_rpush listing_lpop listing_rpop listing_lrange listing_publish
          listing_pubsub_channels)
qed

text \<open>
  C4. The listing has one entry for each name the dispatcher knows, and the names are
  distinct (\<open>tool_names_distinct\<close>, \<open>schema_of_known\<close>); sixteen entries advertise what
  the dispatcher validates (\<open>listing_matches_validation\<close>). The entry of \<open>zadd\<close> does
  not: its property descriptors are the validator values, not the descriptors of what
  they check, so the advertised schema accepts an object with a number as key, a string
  as score and \<open>null\<close> as member, which the dispatcher rejects field by field.
\<close>

theorem zadd_listing_descriptor_mismatch:
  "tool_name (tools ! 14) = ''zadd''
   \<and> tool_properties (tools ! 14)
       = [(''key'', Validator ZString), (''score'', Validator ZNumber), (''member'', Validator ZString)]
   \<and> map snd (tool_properties (tools ! 14)) \<noteq> map (\<lambda>kt. descriptor_of (snd kt)) ZAddArgumentsSchema
   \<and> advertised_accepts (tools ! 14)
        [(''key'', JNum (Whole 5)), (''score'', JStr ''high''), (''member'', JNull)]
   \<and> fst (callTool null_store ''zadd''
        (Some [(''key'', JNum (Whole 5)), (''score'', JStr ''high''), (''member'', JNull)]) ())
       = Inl (Error (''Invalid arguments: key: Expected string, received number, ''
                     @ ''score: Expected number, received string, ''
                     @ ''member: Expected string, received null''))"
  by (simp add: tools_def ZAddArgumentsSchema_def advertised_accepts_def callTool_def dispatch_def
      handle_zadd_def with_args_def parse_def invalid_type_def InvalidArguments_def issue_text_def)

section \<open>What the handlers send and answer\<close>

lemma catch_call:
  "(\<And>r. after_validation (k r)) \<Longrightarrow>
   (case call exec c s k of
      (Inl (ZodError iss), s') \<Rightarrow> (Inl (InvalidArguments iss), s')
    | r \<Rightarrow> r) = call exec c s k"
proof -
  assume k: "\<And>r. after_validation (k r)"
  obtain r s' where e: "exec c s = (r, s')" by (cases "exec c s")
  show ?thesis
  proof (cases r)
    case (Inl m)
    with e show ?thesis by (simp add: call_def)
  next
    case (Inr x)
    with e k [of x] show ?thesis
      by (cases "k x") (auto simp: call_def split: error.splits)
  qed
qed

lemma call_logging:
  "call (logging exec) c (s, log) k =
     (fst (call exec c s k), (snd (call exec c s k), log @ [c]))"
  by (cases "exec c s") (auto simp: call_def logging_def split: sum.splits)

lemma zparse_variadic:
  "zparse (ZOr ZString (ZArray ZString)) p (Some (variadic_json v)) = Inr (Some (variadic_json v))"
  by (rule zparse_has_type) (cases v; simp add: list_all_iff)

lemma as_variadic_json: "as_variadic (Some (variadic_json v)) = v"
  by (cases v) (simp_all add: comp_def)

lemma callTool_delete:
  "callTool exec ''delete'' (Some [(''key'', variadic_json v)]) s
   = call exec (DEL (variadic_arguments v)) s (\<lambda>_. Inr (delete_text v))"
  by (cases v)
     (simp_all add: callTool_def dispatch_def handle_delete_def with_args_def parse_def
        DeleteArgumentsSchema_def zparse_variadic as_variadic_json arg_def del_def catch_call
        delete_text_def del: zparse.simps(5) variadic_json.simps)

lemma snd_call: "snd (call exec c s k) = snd (exec c s)"
  by (cases "exec c s") (auto simp: call_def split: sum.splits)

lemma call_succeeded:
  assumes "call exec c s k = (Inr t, s')"
  obtains r where "exec c s = (Inr r, s')" and "k r = Inr t"
  using assms by (cases "exec c s") (auto simp: call_def split: sum.splits)

lemma callTool_lpush:
  "callTool exec ''lpush'' (Some [(''key'', JStr key), (''value'', variadic_json v)]) s
   = call exec (LPUSH key (variadic_arguments v)) s (\<lambda>result. Inr (txt_lpush @ template result))"
  by (cases v)
     (simp_all add: callTool_def dispatch_def handle_lpush_def with_args_def parse_def
        LPushArgumentsSchema_def zparse_variadic as_variadic_json arg_def lPush_def catch_call
        del: zparse.simps(5) variadic_json.simps)

lemma callTool_rpush:
  "callTool exec ''rpush'' (Some [(''key'', JStr key), (''value'', variadic_json v)]) s
   = call exec (RPUSH key (variadic_arguments v)) s (\<lambda>result. Inr (txt_rpush @ template result))"
  by (cases v)
     (simp_all add: callTool_def dispatch_def handle_rpush_def with_args_def parse_def
        RPushArgumentsSchema_def zparse_variadic as_variadic_json arg_def rPush_def catch_call
        del: zparse.simps(5) variadic_json.simps)

lemma callTool_zrem:
  "callTool exec ''zrem'' (Some [(''key'', JStr key), (''member'', variadic_json v)]) s
   = call exec (ZREM key (variadic_arguments v)) s
       (\<lambda>result. Inr (txt_zrem_removed @ template result @ txt_zrem_members @ key))"
  by (cases v)
     (simp_all add: callTool_def dispatch_def handle_zrem_def with_args_def parse_def
        ZRemArgumentsSchema_def zparse_variadic as_variadic_json arg_def zRem_def catch_call
        del: zparse.simps(5) variadic_json.simps)

lemma callTool_get:
  "callTool exec ''get'' (Some [(''key'', JStr key)]) s
   = call exec (GET key) s
       (\<lambda>val. if val = RNull then Inr (''Key not found: '' @ key) else Inr (template val))"
  by (simp add: callTool_def dispatch_def handle_get_def with_args_def parse_def
        GetArgumentsSchema_def arg_def catch_call)

lemma callTool_set:
  "callTool exec ''set'' (Some [(''key'', JStr key), (''value'', JStr val)]) s
   = call exec (SET key val) s (\<lambda>_. Inr (''Successfully set key: '' @ key))"
  by (simp add: callTool_def dispatch_def handle_set_def with_args_def parse_def
        SetArgumentsSchema_def arg_def catch_call)

lemma callTool_set_expire:
  "callTool exec ''set''
     (Some [(''key'', JStr key), (''value'', JStr val), (''expireSeconds'', JNum n)]) s
   = call exec (if truthy_number n then SETEX key n val else SET key val) s
       (\<lambda>_. Inr (''Successfully set key: '' @ key))"
  by (simp add: callTool_def dispatch_def handle_set_def with_args_def parse_def
        SetArgumentsSchema_def arg_def catch_call)

lemma callTool_zadd:
  "callTool exec ''zadd''
     (Some [(''key'', JStr key), (''score'', JNum score), (''member'', JStr memb)]) s
   = call exec (ZADD key [(score, memb)]) s (\<lambda>result. Inr (txt_zadd @ template result))"
  by (simp add: callTool_def dispatch_def handle_zadd_def with_args_def parse_def
        ZAddArgumentsSchema_def arg_def catch_call)

lemma callTool_zscore:
  "callTool exec ''zscore'' (Some [(''key'', JStr key), (''member'', JStr memb)]) s
   = call exec (ZSCORE key memb) s
       (\<lambda>result. if result = RNull then Inr (txt_member_missing @ key)
                 else Inr (txt_score @ template result))"
  by (simp add: callTool_def dispatch_def handle_zscore_def with_args_def parse_def
        ZScoreArgumentsSchema_def arg_def catch_call)

lemma variadic_scalar_singleton:
  "variadic_arguments (Scalar x) = variadic_arguments (Sequence [x])"
  by simp

text \<open>
  C5. For the key of \<open>delete\<close>, the value of \<open>lpush\<close> and \<open>rpush\<close> and the member of
  \<open>zrem\<close>, the store is sent exactly one command, whose arguments are the one string
  given, or the strings of the array given, in their order and with their repetitions;
  so a string is sent as the array holding just that string would be. When the store
  answers a \<open>delete\<close> of an array of keys, the response reports the number of keys
  given.
\<close>

theorem variadic_forwarding:
  "snd (callTool (logging exec) ''delete'' (Some [(''key'', variadic_json v)]) (s, log))
     = (snd (exec (DEL (variadic_arguments v)) s), log @ [DEL (variadic_arguments v)])
   \<and> snd (callTool (logging exec) ''lpush''
            (Some [(''key'', JStr key), (''value'', variadic_json v)]) (s, log))
     = (snd (exec (LPUSH key (variadic_arguments v)) s), log @ [LPUSH key (variadic_arguments v)])
   \<and> snd (callTool (logging exec) ''rpush''
            (Some [(''key'', JStr key), (''value'', variadic_json v)]) (s, log))
     = (snd (exec (RPUSH key (variadic_arguments v)) s), log @ [RPUSH key (variadic_arguments v)])
   \<and> snd (callTool (logging exec) ''zrem''
            (Some [(''key'', JStr key), (''member'', variadic_json v)]) (s, log))
     = (snd (exec (ZREM key (variadic_arguments v)) s), log @ [ZREM key (variadic_arguments v)])
   \<and> variadic_arguments (Scalar x) = [x]
   \<and> variadic_arguments (Scalar x) = variadic_arguments (Sequence [x])
   \<and> variadic_arguments (Sequence xs) = xs
   \<and> (exec (DEL ks) s = (Inr r, s') \<longrightarrow>
        callTool exec ''delete'' (Some [(''key'', JArr (map JStr ks))]) s
          = (Inr (''Successfully deleted '' @ dec (length ks) @ '' keys''), s'))"
proof -
  have "callTool exec ''delete'' (Some [(''key'', variadic_json (Sequence ks))]) s
          = (Inr (''Successfully deleted '' @ dec (length ks) @ '' keys''), s')"
    if "exec (DEL ks) s = (Inr r, s')"
    unfolding callTool_delete using that by (simp add: call_def delete_text_def)
  then have response: "exec (DEL ks) s = (Inr r, s') \<longrightarrow>
        callTool exec ''delete'' (Some [(''key'', JArr (map JStr ks))]) s
          = (Inr (''Successfully deleted '' @ dec (length ks) @ '' keys''), s')"
    by simp
  have forwarded:
    "snd (callTool (logging exec) ''delete'' (Some [(''key'', variadic_json v)]) (s, log))
       = (snd (exec (DEL (variadic_arguments v)) s), log @ [DEL (variadic_arguments v)])"
    "snd (callTool (logging exec) ''lpush''
            (Some [(''key'', JStr key), (''value'', variadic_json v)]) (s, log))
       = (snd (exec (LPUSH key (variadic_arguments v)) s), log @ [LPUSH key (variadic_arguments v)])"
    "snd (callTool (logging exec) ''rpush''
            (Some [(''key'', JStr key), (''value'', variadic_json v)]) (s, log))
       = (snd (exec (RPUSH key (variadic_arguments v)) s), log @ [RPUSH key (variadic_arguments v)])"
    "snd (callTool (logging exec) ''zrem''
            (Some [(''key'', JStr key), (''member'', variadic_json v)]) (s, log))
       = (snd (exec (ZREM key (variadic_arguments v)) s), log @ [ZREM key (variadic_arguments v)])"
    unfolding callTool_delete callTool_lpush callTool_rpush callTool_zrem
    by (simp_all add: call_logging snd_call)
  show ?thesis using forwarded response by simp
qed

theorem variadic_forwarding_witness:
  "memory_store (DEL [''a'', ''b'', ''a'']) [(''a'', Str ''1'')] = (Inr (RNum (Whole 1)), [])
   \<and> callTool memory_store ''delete'' (Some [(''key'', JArr [JStr ''a'', JStr ''b'', JStr ''a''])])
        [(''a'', Str ''1'')]
      = (Inr ''Successfully deleted 3 keys'', [])
   \<and> snd (callTool (logging memory_store) ''delete''
            (Some [(''key'', JArr [JStr ''a'', JStr ''b'', JStr ''a''])]) ([(''a'', Str ''1'')], []))
      = ([], [DEL [''a'', ''b'', ''a'']])"
proof -
  have e: "memory_store (DEL [''a'', ''b'', ''a'']) [(''a'', Str ''1'')] = (Inr (RNum (Whole 1)), [])"
    by simp
  from variadic_forwarding
         [of memory_store "Sequence [''a'', ''b'', ''a'']" "[(''a'', Str ''1'')]" "[]" _ _ _
            "[''a'', ''b'', ''a'']" "RNum (Whole 1)" "[]"] e
  show ?thesis by (simp add: dec.simps digit_char_def)
qed

text \<open>
  C9. Whatever the store replies to \<open>DEL\<close>, the text of \<open>delete\<close> is fixed by its
  arguments: \<open>Successfully deleted key: k\<close> for one key, and \<open>Successfully deleted n keys\<close>
  for an array of \<open>n\<close> keys. The reply \<open>r\<close>, which is the number of keys that were
  deleted, does not occur in the response.
\<close>

theorem delete_response_ignores_reply:
  "exec (DEL (variadic_arguments v)) s = (Inr r, s') \<longrightarrow>
     callTool exec ''delete'' (Some [(''key'', variadic_json v)]) s
       = (Inr (case v of
                 Scalar k \<Rightarrow> ''Successfully deleted key: '' @ k
               | Sequence ks \<Rightarrow> ''Successfully deleted '' @ dec (length ks) @ '' keys''), s')"
  by (cases v) (simp_all add: callTool_delete call_def delete_text_def del: variadic_json.simps)

theorem delete_response_ignores_reply_witness:
  "memory_store (DEL [''gone'', ''never'']) [] = (Inr (RNum (Whole 0)), [])
   \<and> callTool memory_store ''delete'' (Some [(''key'', JArr [JStr ''gone'', JStr ''never''])]) []
      = (Inr ''Successfully deleted 2 keys'', [])
   \<and> memory_store (DEL [''gone'']) [] = (Inr (RNum (Whole 0)), [])
   \<and> callTool memory_store ''delete'' (Some [(''key'', JStr ''gone'')]) []
      = (Inr ''Successfully deleted key: gone'', [])"
proof -
  have a: "memory_store (DEL [''gone'', ''never'']) [] = (Inr (RNum (Whole 0)), [])"
    and b: "memory_store (DEL [''gone'']) [] = (Inr (RNum (Whole 0)), [])"
    by simp_all
  from delete_response_ignores_reply
         [of memory_store "Sequence [''gone'', ''never'']" "[]" "RNum (Whole 0)" "[]"]
       delete_response_ignores_reply
         [of memory_store "Scalar ''gone''" "[]" "RNum (Whole 0)" "[]"] a b
  show ?thesis by (simp add: dec.simps digit_char_def)
qed

text \<open>
  C8. With \<open>expireSeconds\<close> equal to 0 the \<open>set\<close> branch does what it does without
  \<open>expireSeconds\<close>: it sends the plain \<open>SET\<close> and nothing else. (With 60 it sends
  \<open>SETEX\<close>.)
\<close>

theorem set_zero_expiry:
  "callTool exec ''set''
     (Some [(''key'', JStr key), (''value'', JStr val), (''expireSeconds'', JNum (Whole 0))]) s
     = callTool exec ''set'' (Some [(''key'', JStr key), (''value'', JStr val)]) s
   \<and> snd (snd (callTool (logging exec) ''set''
        (Some [(''key'', JStr key), (''value'', JStr val), (''expireSeconds'', JNum (Whole 0))])
        (s, log)))
     = log @ [SET key val]
   \<and> snd (snd (callTool (logging exec) ''set''
        (Some [(''key'', JStr key), (''value'', JStr val), (''expireSeconds'', JNum (Whole 60))])
        (s, log)))
     = log @ [SETEX key (Whole 60) val]"
  by (simp add: callTool_set callTool_set_expire call_logging)


lemma snd_callTool: "snd (callTool exec name args s) = snd (dispatch exec name args s)"
  by (cases "dispatch exec name args s")
     (auto simp: callTool_def split: sum.splits error.splits)

lemma handle_get_commands:
  "list_all (\<lambda>c. case c of GET k \<Rightarrow> True | _ \<Rightarrow> False)
     (snd (snd (callTool (logging exec) ''get'' args (s, []))))"
  by (cases "parse GetArgumentsSchema args")
     (simp_all add: snd_callTool dispatch_def handle_get_def with_args_def Let_def call_logging)

text \<open>
  C6. A key is absent from the store when \<open>GET\<close> answers \<open>null\<close> for it and leaves the
  store as it is. For such a key \<open>get\<close> returns the text \<open>Key not found: key\<close>, no error,
  and the same again when repeated. The only command \<open>get\<close> ever sends, whatever its
  arguments, is \<open>GET\<close>: the store changes only as \<open>GET\<close> changes it, which is not at all.
\<close>

theorem get_absent_key:
  "(exec (GET key) s = (Inr RNull, s) \<longrightarrow>
      callTool exec ''get'' (Some [(''key'', JStr key)]) s = (Inr (''Key not found: '' @ key), s)
      \<and> callTool exec ''get'' (Some [(''key'', JStr key)])
            (snd (callTool exec ''get'' (Some [(''key'', JStr key)]) s))
          = callTool exec ''get'' (Some [(''key'', JStr key)]) s)
   \<and> snd (callTool exec ''get'' (Some [(''key'', JStr key)]) s) = snd (exec (GET key) s)
   \<and> snd (snd (callTool (logging exec) ''get'' (Some [(''key'', JStr key)]) (s, log)))
       = log @ [GET key]
   \<and> list_all (\<lambda>c. case c of GET k \<Rightarrow> True | _ \<Rightarrow> False)
        (snd (snd (callTool (logging exec) ''get'' args (s, []))))"
proof -
  have "callTool exec ''get'' (Some [(''key'', JStr key)]) s = (Inr (''Key not found: '' @ key), s)"
    if "exec (GET key) s = (Inr RNull, s)"
    unfolding callTool_get using that by (simp add: call_def)
  moreover have "snd (callTool exec ''get'' (Some [(''key'', JStr key)]) s) = snd (exec (GET key) s)"
    unfolding callTool_get by (simp add: snd_call)
  moreover have "snd (snd (callTool (logging exec) ''get'' (Some [(''key'', JStr key)]) (s, log)))
       = log @ [GET key]"
    unfolding callTool_get by (simp add: call_logging)
  ultimately show ?thesis using handle_get_commands [of exec args s] by simp
qed

theorem get_absent_key_witness:
  "memory_store (GET ''missing'') [(''a'', Str ''1'')] = (Inr RNull, [(''a'', Str ''1'')])
   \<and> callTool memory_store ''get'' (Some [(''key'', JStr ''missing'')]) [(''a'', Str ''1'')]
       = (Inr ''Key not found: missing'', [(''a'', Str ''1'')])"
proof -
  have e: "memory_store (GET ''missing'') [(''a'', Str ''1'')] = (Inr RNull, [(''a'', Str ''1'')])"
    by simp
  from get_absent_key [of memory_store "''missing''" "[(''a'', Str ''1'')]"] e
  show ?thesis by simp
qed

lemma memory_store_zadd_zscore: "zadd_zscore_law memory_store"
  unfolding zadd_zscore_law_def
  by (auto simp: zadd_into_def zset_put_def split: option.splits stored.splits)

text \<open>
  C7. On a store where a score added is the score read, once \<open>zadd\<close> with a key, a score
  and a member has succeeded, \<open>zscore\<close> with that key and member succeeds, and its text is
  the score label followed by the score as the language prints it; the score 5 is printed
  as \<open>5\<close>.
\<close>

theorem zadd_then_zscore:
  "zadd_zscore_law exec \<longrightarrow>
   callTool exec ''zadd''
      (Some [(''key'', JStr key), (''score'', JNum score), (''member'', JStr memb)]) s = (Inr t, s')
   \<longrightarrow> fst (callTool exec ''zscore'' (Some [(''key'', JStr key), (''member'', JStr memb)]) s')
         = Inr (txt_score @ number_text score)
       \<and> number_text (Whole 5) = ''5''"
proof (intro impI)
  assume law: "zadd_zscore_law exec"
    and zadd: "callTool exec ''zadd''
      (Some [(''key'', JStr key), (''score'', JNum score), (''member'', JStr memb)]) s = (Inr t, s')"
  from zadd obtain r where "exec (ZADD key [(score, memb)]) s = (Inr r, s')"
    unfolding callTool_zadd by (rule call_succeeded)
  with law have "fst (exec (ZSCORE key memb) s') = Inr (RNum score)"
    unfolding zadd_zscore_law_def by blast
  then have "fst (callTool exec ''zscore'' (Some [(''key'', JStr key), (''member'', JStr memb)]) s')
         = Inr (txt_score @ number_text score)"
    unfolding callTool_zscore by (cases "exec (ZSCORE key memb) s'") (simp add: call_def)
  then show "fst (callTool exec ''zscore'' (Some [(''key'', JStr key), (''member'', JStr memb)]) s')
         = Inr (txt_score @ number_text score)
       \<and> number_text (Whole 5) = ''5''"
    by (simp add: int_text_def dec.simps digit_char_def)
qed

theorem zadd_then_zscore_witness:
  "zadd_zscore_law memory_store
   \<and> callTool memory_store ''zadd''
        (Some [(''key'', JStr ''Z''), (''score'', JNum (Whole 5)), (''member'', JStr ''m'')]) []
       = (Inr (txt_zadd @ ''1''), [(''Z'', ZSet [(''m'', Whole 5)])])
   \<and> fst (callTool memory_store ''zscore'' (Some [(''key'', JStr ''Z''), (''member'', JStr ''m'')])
          [(''Z'', ZSet [(''m'', Whole 5)])])
       = Inr (txt_score @ ''5'')"
proof -
  have z: "callTool memory_store ''zadd''
        (Some [(''key'', JStr ''Z''), (''score'', JNum (Whole 5)), (''member'', JStr ''m'')]) []
       = (Inr (txt_zadd @ ''1''), [(''Z'', ZSet [(''m'', Whole 5)])])"
    unfolding callTool_zadd
    by (simp add: call_def zadd_into_def zset_put_def int_text_def dec.simps digit_char_def)
  from zadd_then_zscore
         [of memory_store "''Z''" "Whole 5" "''m''" "[]" "txt_zadd @ ''1''"
            "[(''Z'', ZSet [(''m'', Whole 5)])]"]
       memory_store_zadd_zscore z
  show ?thesis by simp
qed


lemma memory_store_zrem: "zrem_law memory_store"
  unfolding zrem_law_def
proof (intro allI impI)
  fix key ms s r s'
  assume a: "memory_store (ZREM key ms) s = (Inr r, s')"
  show "r = RNum (Whole (int (length
          (filter (\<lambda>m. fst (memory_store (ZSCORE key m) s) \<noteq> Inr RNull) (remdups ms)))))"
  proof (cases "map_of s key")
    case None
    with a show ?thesis by (auto split: if_splits)
  next
    case (Some st)
    show ?thesis
    proof (cases st)
      case (Str x)
      with a Some show ?thesis by (auto split: if_splits)
    next
      case (ZSet z)
      have "(fst (memory_store (ZSCORE key m) s) \<noteq> Inr RNull) = (map_of z m \<noteq> None)" for m
        using Some ZSet by (auto split: option.splits)
      then show ?thesis using a Some ZSet by (auto split: if_splits)
    qed
  qed
qed

lemma fewer_when_one_fails:
  assumes "m \<in> set ms" and "\<not> P m"
  shows "length (filter P (remdups ms)) < length ms"
proof -
  have "m \<in> set (remdups ms)" using assms(1) by simp
  then have "length (filter P (remdups ms)) < length (remdups ms)"
    using assms(2) by (rule length_filter_less)
  also have "\<dots> \<le> length ms" by (rule length_remdups_leq)
  finally show ?thesis .
qed

text \<open>
  C10. The number in the text of \<open>zrem\<close> is the store's reply to \<open>ZREM\<close>, not the number
  of members given. On a store whose reply counts the given members that were in the
  sorted set, the number reported is smaller than the number of members given as soon as
  one of them was not in the set.
\<close>

theorem zrem_reports_store_count:
  "exec (ZREM key (variadic_arguments v)) s = (Inr r, s') \<longrightarrow>
     callTool exec ''zrem'' (Some [(''key'', JStr key), (''member'', variadic_json v)]) s
       = (Inr (txt_zrem_removed @ template r @ txt_zrem_members @ key), s')
     \<and> (zrem_law exec
          \<and> list_ex (\<lambda>m. fst (exec (ZSCORE key m) s) = Inr RNull) (variadic_arguments v)
        \<longrightarrow> (\<exists>n. r = RNum (Whole n) \<and> template r = int_text n
                 \<and> 0 \<le> n \<and> n < int (length (variadic_arguments v))))"
proof (intro impI conjI)
  assume e: "exec (ZREM key (variadic_arguments v)) s = (Inr r, s')"
  then show "callTool exec ''zrem'' (Some [(''key'', JStr key), (''member'', variadic_json v)]) s
       = (Inr (txt_zrem_removed @ template r @ txt_zrem_members @ key), s')"
    unfolding callTool_zrem by (simp add: call_def)
  assume "zrem_law exec
          \<and> list_ex (\<lambda>m. fst (exec (ZSCORE key m) s) = Inr RNull) (variadic_arguments v)"
  then have law: "zrem_law exec"
    and "\<exists>m \<in> set (variadic_arguments v). fst (exec (ZSCORE key m) s) = Inr RNull"
    by (simp_all add: list_ex_iff)
  then obtain m where m: "m \<in> set (variadic_arguments v)"
      "\<not> fst (exec (ZSCORE key m) s) \<noteq> Inr RNull"
    by auto
  define n where "n = length (filter (\<lambda>m. fst (exec (ZSCORE key m) s) \<noteq> Inr RNull)
                      (remdups (variadic_arguments v)))"
  from law e have "r = RNum (Whole (int n))"
    unfolding zrem_law_def n_def by blast
  moreover have "n < length (variadic_arguments v)"
    unfolding n_def using m by (rule fewer_when_one_fails)
  ultimately show "\<exists>n. r = RNum (Whole n) \<and> template r = int_text n
                 \<and> 0 \<le> n \<and> n < int (length (variadic_arguments v))"
    by simp
qed

theorem zrem_reports_store_count_witness:
  "zrem_law memory_store
   \<and> memory_store (ZREM ''Z'' [''a'', ''c'', ''b''])
        [(''Z'', ZSet [(''a'', Whole 1), (''b'', Whole 2)])]
       = (Inr (RNum (Whole 2)), [])
   \<and> fst (memory_store (ZSCORE ''Z'' ''c'') [(''Z'', ZSet [(''a'', Whole 1), (''b'', Whole 2)])])
       = Inr RNull
   \<and> callTool memory_store ''zrem''
        (Some [(''key'', JStr ''Z''), (''member'', JArr [JStr ''a'', JStr ''c'', JStr ''b''])])
        [(''Z'', ZSet [(''a'', Whole 1), (''b'', Whole 2)])]
       = (Inr (txt_zrem_removed @ ''2'' @ txt_zrem_members @ ''Z''), [])
   \<and> (2::int) < int (length [''a'', ''c'', ''b''])"
proof -
  have e: "memory_store (ZREM ''Z'' [''a'', ''c'', ''b''])
        [(''Z'', ZSet [(''a'', Whole 1), (''b'', Whole 2)])]
       = (Inr (RNum (Whole 2)), [])"
    by simp
  have c: "fst (memory_store (ZSCORE ''Z'' ''c'') [(''Z'', ZSet [(''a'', Whole 1), (''b'', Whole 2)])])
       = Inr RNull"
    by simp
  from zrem_reports_store_count
         [of memory_store "''Z''" "Sequence [''a'', ''c'', ''b'']"
            "[(''Z'', ZSet [(''a'', Whole 1), (''b'', Whole 2)])]" "RNum (Whole 2)" "[]"]
       memory_store_zrem e c
  show ?thesis by (simp add: int_text_def dec.simps digit_char_def)
qed


end
